theory Spec2Isabelle
  imports Complex_Main "HOL-Library.Sublist" "HOL-Library.Log_Nat" "HOL-Library.Multiset"
begin

section \<open>Python strings, regular-expression character classes and floats\<close>

text \<open>
  A Python \<open>str\<close> is modelled by \<^typ>\<open>string\<close>; every \<^typ>\<open>char\<close> stands for the code
  point of the same number (0 to 255).  The substring test \<open>a in b\<close> of Python is
  \<^term>\<open>sublist a b\<close>: \<open>b = ps @ a @ ss\<close> for some \<open>ps\<close>, \<open>ss\<close>.

  \<open>str.lower()\<close> maps \<open>A\<close>..\<open>Z\<close> and the capital letters 192..222 (without the
  multiplication sign 215) to the code point 32 above and keeps every other
  code point below 256.  The class \<open>\s\<close> of \<open>re\<close> on a \<open>str\<close> pattern holds the code
  points 9..13, 28..32, 133 and 160 in this range, the class \<open>\d\<close> the ten digits.
\<close>

definition lower_char :: "char \<Rightarrow> char" where
  "lower_char c = (let n = (of_char c :: nat) in
     if (65 \<le> n \<and> n \<le> 90) \<or> (192 \<le> n \<and> n \<le> 222 \<and> n \<noteq> 215)
     then char_of (n + 32) else c)"

definition lower :: "string \<Rightarrow> string" where
  "lower s = map lower_char s"

definition is_space :: "char \<Rightarrow> bool" where
  "is_space c = (let n = (of_char c :: nat) in
     (9 \<le> n \<and> n \<le> 13) \<or> (28 \<le> n \<and> n \<le> 32) \<or> n = 133 \<or> n = 160)"

definition is_digit :: "char \<Rightarrow> bool" where
  "is_digit c = (let n = (of_char c :: nat) in 48 \<le> n \<and> n \<le> 57)"

text \<open>
  A Python \<open>float\<close> that \<open>float()\<close> returns for a numeral without sign is a
  non-negative binary64 number or infinity.  \<open>float(s)\<close> is the decimal value of \<open>s\<close>
  rounded to the nearest binary64 number, ties to the even significand; the
  smallest positive binary64 number is \<open>2 ^ -1074\<close>, and a value that rounds to
  \<open>2 ^ 1024\<close> becomes infinity.
\<close>

datatype pyfloat = Finite real | Infinity

definition pow2 :: "int \<Rightarrow> real" where
  "pow2 e = (if 0 \<le> e then 2 ^ nat e else 1 / 2 ^ nat (- e))"

definition floor_log2 :: "real \<Rightarrow> int" where
  \<comment> \<open>for \<open>0 < q\<close>: the \<open>k\<close> with \<open>2 ^ k \<le> q < 2 ^ (k + 1)\<close>\<close>
  "floor_log2 q = (if 1 \<le> q then bitlen \<lfloor>q\<rfloor> - 1 else - bitlen (\<lceil>1 / q\<rceil> - 1))"

definition round_half_even :: "real \<Rightarrow> int" where
  "round_half_even q = (let f = \<lfloor>q\<rfloor>; d = q - of_int f in
     if d < 1 / 2 then f else if 1 / 2 < d then f + 1
     else if even f then f else f + 1)"

definition float_of_real :: "real \<Rightarrow> pyfloat" where
  "float_of_real q = (if q = 0 then Finite 0 else
     let e = max (floor_log2 q - 52) (- 1074);
         m = round_half_even (q / pow2 e)
     in if pow2 1024 \<le> of_int m * pow2 e then Infinity
        else Finite (of_int m * pow2 e))"

definition digit_val :: "char \<Rightarrow> nat" where
  "digit_val c = of_char c - 48"

definition nat_of_digits :: "string \<Rightarrow> nat" where
  "nat_of_digits ds = foldl (\<lambda>a c. 10 * a + digit_val c) 0 ds"

definition py_float :: "string \<Rightarrow> pyfloat" where
  \<comment> \<open>\<open>float(s)\<close> for \<open>s\<close> of the shape \<open>\d+(\.\d+)?\<close>, the only strings the
      extractors pass to it\<close>
  "py_float s = (let ip = takeWhile is_digit s; fp = drop (length ip + 1) s in
     float_of_real (of_nat (nat_of_digits (ip @ fp)) / 10 ^ length fp))"

definition truthy :: "pyfloat option \<Rightarrow> bool" where
  \<comment> \<open>Python's truth value of \<open>None\<close> or a float\<close>
  "truthy b = (case b of None \<Rightarrow> False | Some f \<Rightarrow> f \<noteq> Finite 0)"

section \<open>convo.py: the deterministic extractor\<close>

text \<open>
  \<open>re.search\<close> tries the start positions from left to right and returns the
  first match.  Both budget patterns are sequences of greedy pieces none of
  which can give a character back to a later piece: after \<open>under\<close> the first
  \<open>\s*\<close> stops before a character that is no white space, \<open>\$?\<close> takes a
  dollar sign that is there, and \<open>\d+\<close> needs a digit right after the second
  \<open>\s*\<close>, so the leftmost-greedy reading below is the match that \<open>re\<close> finds.
  \<open>number_at\<close> is the group \<open>(\d+(?:\.\d+)?)\<close>.
\<close>

definition number_at :: "string \<Rightarrow> string option" where
  "number_at s = (let ip = takeWhile is_digit s; r = dropWhile is_digit s in
     if ip = [] then None
     else (case r of
         [] \<Rightarrow> Some ip
       | c # t \<Rightarrow> if c = CHR ''.'' \<and> takeWhile is_digit t \<noteq> []
                  then Some (ip @ [c] @ takeWhile is_digit t) else Some ip))"

definition opt_dollar :: "string \<Rightarrow> string" where
  \<comment> \<open>the piece \<open>\$?\<close>\<close>
  "opt_dollar s = (case s of [] \<Rightarrow> [] | c # t \<Rightarrow> if c = CHR ''$'' then t else s)"

definition match_under :: "string \<Rightarrow> string option" where
  \<comment> \<open>\<open>under\s*\$?\s*(\d+(?:\.\d+)?)\<close> at the head of \<open>s\<close>\<close>
  "match_under s = (if prefix ''under'' s
     then number_at (dropWhile is_space (opt_dollar (dropWhile is_space (drop 5 s))))
     else None)"

definition match_dollar :: "string \<Rightarrow> string option" where
  \<comment> \<open>\<open>\$\s*(\d+(?:\.\d+)?)\<close> at the head of \<open>s\<close>\<close>
  "match_dollar s = (case s of [] \<Rightarrow> None
     | c # t \<Rightarrow> if c = CHR ''$'' then number_at (dropWhile is_space t) else None)"

fun re_search :: "(string \<Rightarrow> string option) \<Rightarrow> string \<Rightarrow> string option" where
  "re_search m [] = m []"
| "re_search m (c # s) = (case m (c # s) of Some g \<Rightarrow> Some g | None \<Rightarrow> re_search m s)"

definition extract_budget :: "string \<Rightarrow> pyfloat option" where
  "extract_budget txt = (case re_search match_under txt of
       Some g \<Rightarrow> Some (py_float g)
     | None \<Rightarrow> (case re_search match_dollar txt of
         Some g \<Rightarrow> Some (py_float g)
       | None \<Rightarrow> None))"

definition ENGAGEMENT_FACTORS :: "string \<rightharpoonup> int" where
  "ENGAGEMENT_FACTORS = map_of
     [(''specific_preferences'', 15), (''dietary_restrictions'', 10), (''budget_mention'', 5),
      (''mood_indication'', 20), (''question_asking'', 10), (''enthusiasm_words'', 8),
      (''price_inquiry'', 25), (''order_intent'', 30), (''nutrient_preference'', 12)]"

definition NEGATIVE_FACTORS :: "string \<rightharpoonup> int" where
  "NEGATIVE_FACTORS = map_of
     [(''hesitation'', - 10), (''budget_concern'', - 15), (''dietary_conflict'', - 20),
      (''rejection'', - 25), (''delay_response'', - 5)]"

definition DIETARY_KEYWORDS :: "string list" where
  "DIETARY_KEYWORDS = [''vegan'', ''vegetarian'', ''gluten_free'', ''dairy_free'', ''nut_free'']"

definition MOODS :: "string list" where
  \<comment> \<open>the list literal of the mood loop\<close>
  "MOODS = [''adventurous'', ''comfort'', ''healthy'', ''indulgent'', ''quick'',
            ''refreshing'', ''cozy'', ''party'']"

text \<open>
  The dictionary \<open>out\<close> of \<open>simple_nlu\<close> has at most the seven keys below (the key
  \<open>order\<close> is the field \<open>order_flag\<close>).  A field is \<open>None\<close> (or \<open>False\<close> for the four
  flags, whose only stored value is \<open>True\<close>) exactly when the key is not in the
  dictionary, so \<open>'mood' in nlu\<close> reads \<open>mood n \<noteq> None\<close> and \<open>'spicy' in nlu\<close> reads
  \<open>spicy n\<close>.  The message is a string; \<open>text or ""\<close> only matters for \<open>None\<close>.
\<close>

record nlu =
  budget :: "pyfloat option"
  dietary :: "string list option"
  spicy :: bool
  order_flag :: bool
  enthusiasm :: bool
  question :: bool
  mood :: "string option"

definition empty_nlu :: nlu where
  "empty_nlu = \<lparr>budget = None, dietary = None, spicy = False, order_flag = False,
                 enthusiasm = False, question = False, mood = None\<rparr>"

fun dietary_loop :: "string list \<Rightarrow> string \<Rightarrow> nlu \<Rightarrow> nlu" where
  \<comment> \<open>\<open>for d in DIETARY_KEYWORDS: if d in txt: out.setdefault('dietary',[]).append(d)\<close>\<close>
  "dietary_loop [] txt out = out"
| "dietary_loop (d # ds) txt out = dietary_loop ds txt
     (if sublist d txt
      then out\<lparr>dietary := Some ((case dietary out of None \<Rightarrow> [] | Some l \<Rightarrow> l) @ [d])\<rparr>
      else out)"

fun mood_loop :: "string list \<Rightarrow> string \<Rightarrow> nlu \<Rightarrow> nlu" where
  \<comment> \<open>\<open>for mood in [...]: if mood in txt: out['mood']=mood; break\<close>\<close>
  "mood_loop [] txt out = out"
| "mood_loop (m # ms) txt out =
     (if sublist m txt then out\<lparr>mood := Some m\<rparr> else mood_loop ms txt out)"

definition any_in :: "string list \<Rightarrow> string \<Rightarrow> bool" where
  \<comment> \<open>\<open>any(w in txt for w in ws)\<close>\<close>
  "any_in ws txt = list_ex (\<lambda>w. sublist w txt) ws"

definition simple_nlu :: "string \<Rightarrow> nlu" where
  "simple_nlu text = (let
       txt = lower text;
       out = empty_nlu;
       b = extract_budget txt;
       out = (if truthy b then out\<lparr>budget := b\<rparr> else out);
       out = dietary_loop DIETARY_KEYWORDS txt out;
       out = (if any_in [''spicy'', ''hot'', ''chili'', ''jalape''] txt
              then out\<lparr>spicy := True\<rparr> else out);
       out = (if any_in [''order'', ''add to cart'', ''i'' @ [CHR 0x27] @ ''ll take'',
                         ''i will take'', ''buy''] txt
              then out\<lparr>order_flag := True\<rparr> else out);
       out = (if any_in [''love'', ''perfect'', ''amazing'', ''delicious''] txt
              then out\<lparr>enthusiasm := True\<rparr> else out);
       out = (if sublist ''?'' txt then out\<lparr>question := True\<rparr> else out)
     in mood_loop MOODS txt out)"

section \<open>convo.py: session context and engagement score\<close>

record turn =
  role :: string
  turn_text :: string
  turn_nlu :: nlu
  score_delta :: int

record session_context =
  session_id :: string
  history :: "turn list"
  intents :: "string \<rightharpoonup> string"
  accumulated_score :: int
  seen_intents :: "string set"

definition init_context :: "string \<Rightarrow> session_context" where
  \<comment> \<open>\<open>_init_context\<close>; the argument is the given session id, or the UUID drawn\<close>
  "init_context sid = \<lparr>session_id = sid, history = [], intents = Map.empty,
                        accumulated_score = 0, seen_intents = {}\<rparr>"

definition factor :: "string \<Rightarrow> int" where
  \<comment> \<open>the subscript \<open>ENGAGEMENT_FACTORS[k]\<close>; the source writes it at seven literal keys,
      all of them in the table\<close>
  "factor k = the (ENGAGEMENT_FACTORS k)"

definition turn_delta :: "nlu \<Rightarrow> int" where
  \<comment> \<open>the seven \<open>if k in nlu: score_delta += ...\<close> statements\<close>
  "turn_delta n = (let
       d = 0;
       d = (if mood n \<noteq> None then d + factor ''mood_indication'' else d);
       d = (if dietary n \<noteq> None
            then d + factor ''dietary_restrictions''
                     * int (length (case dietary n of None \<Rightarrow> [] | Some l \<Rightarrow> l))
            else d);
       d = (if budget n \<noteq> None then d + factor ''budget_mention'' else d);
       d = (if question n then d + factor ''question_asking'' else d);
       d = (if enthusiasm n then d + factor ''enthusiasm_words'' else d);
       d = (if order_flag n then d + factor ''order_intent'' else d);
       d = (if spicy n then d + factor ''specific_preferences'' else d)
     in d)"

definition update_context_and_score ::
    "session_context option \<Rightarrow> string \<Rightarrow> string
      \<Rightarrow> session_context \<times> int \<times> int \<times> nlu" where
  \<comment> \<open>arguments: the context or \<open>None\<close>, the UUID drawn when it is \<open>None\<close>, the text;
      the parameter \<open>product_tags\<close> is never read and left out.  The Python function
      updates the context in place and returns it\<close>
  "update_context_and_score ctx uuid text = (let
       context = (case ctx of None \<Rightarrow> init_context uuid | Some c \<Rightarrow> c);
       n = simple_nlu text;
       delta = turn_delta n;
       context = context\<lparr>history := history context @
           [\<lparr>role = ''user'', turn_text = text, turn_nlu = n, score_delta = delta\<rparr>]\<rparr>;
       context = context\<lparr>accumulated_score :=
           max 0 (min 100 (accumulated_score context + delta))\<rparr>
     in (context, delta, accumulated_score context, n))"

section \<open>Python exceptions\<close>

datatype exn = TypeError | OverflowError | RuntimeError | ServiceError string

section \<open>recommender.py: catalog rows and ranking\<close>

text \<open>
  A catalog row is the dictionary that \<open>_parse_row\<close> makes of a row of the table
  \<open>products\<close>: it has every column as a key, and a column that is \<open>NULL\<close> has the value
  \<open>None\<close>.  A field below is \<open>None\<close> when the value under the key is \<open>None\<close>; the two tag
  fields are \<open>None\<close> as well when the value is no list (text that \<open>json.loads\<close> did not
  decode).  Since every key is there, the defaults of \<open>item.get(key, default)\<close> are never
  used.  The first five fields are the keys that the reply generator keeps.  The
  parameters \<open>mood\<close>, \<open>budget\<close> and \<open>dietary\<close> carry a prime below, their names being
  fields of the record \<open>nlu\<close>.  A price or a popularity score is a real: the value of
  the Python \<open>int\<close> or of the finite \<open>float\<close> under the key.
\<close>

record safe_product =
  product_id :: "string option"
  name :: "string option"
  price :: "real option"
  spice_level :: "int option"
  popularity_score :: "real option"

record product = safe_product +
  category :: "string option"
  calories :: "int option"
  mood_tags :: "string list option"
  dietary_tags :: "string list option"

datatype sqlparam = PText string | PReal real | PInt int

definition join_and :: "string list \<Rightarrow> string" where
  \<comment> \<open>\<open>' AND '.join(clauses) if clauses else '1=1'\<close>\<close>
  "join_and clauses = (case clauses of [] \<Rightarrow> ''1=1''
     | c # cs \<Rightarrow> foldl (\<lambda>a b. a @ '' AND '' @ b) c cs)"

definition build_query ::
    "string option \<Rightarrow> real option \<Rightarrow> string list option \<Rightarrow> string option
      \<Rightarrow> string \<times> sqlparam list" where
  \<comment> \<open>the clauses and parameters of \<open>recommend_by_preferences\<close>; \<open>None\<close>, the empty
      string and the empty list are the values that \<open>if mood:\<close> and \<open>if dietary:\<close> skip\<close>
  "build_query mood' budget' dietary' nutrient = (let
       cp = ([], []);
       cp = (case mood' of None \<Rightarrow> cp
             | Some m \<Rightarrow> if m = [] then cp
                 else (fst cp @ [''mood_tags LIKE ?''], snd cp @ [PText (''%'' @ m @ ''%'')]));
       cp = (case budget' of None \<Rightarrow> cp
             | Some b \<Rightarrow> (fst cp @ [''price <= ?''], snd cp @ [PReal b]));
       cp = (case dietary' of None \<Rightarrow> cp
             | Some ds \<Rightarrow> foldl (\<lambda>acc d. (fst acc @ [''dietary_tags LIKE ?''],
                                        snd acc @ [PText (''%'' @ d @ ''%'')])) cp ds);
       cp = (if nutrient = Some ''protein''
               then (fst cp @ [''calories >= ?''], snd cp @ [PInt 300])
             else if nutrient = Some ''low_carb''
               then (fst cp @ [''calories <= ?''], snd cp @ [PInt 400])
             else if nutrient = Some ''low_calorie''
               then (fst cp @ [''calories <= ?''], snd cp @ [PInt 250])
             else cp)
     in (join_and (fst cp), snd cp))"

text \<open>
  The score is computed in Python floats, which are binary64 numbers: every operation
  returns the exact result rounded to the nearest binary64 number, ties to the even
  significand, and a result that rounds to \<open>2 ^ 1024\<close> or beyond is an infinity.  A float
  is modelled by the real it denotes, and the two infinities by \<open>2 ^ 1024\<close> and
  \<open>- 2 ^ 1024\<close>, which compare with the finite floats as the infinities do.  \<open>float(v)\<close>
  of a number raises \<open>OverflowError\<close> for an \<open>int\<close> beyond the floats.  In \<open>fadd a x\<close> the
  float \<open>x\<close> is finite, and an infinite \<open>a\<close> stays; no operation of \<open>score\<close> adds two
  infinities, so no result is the float that is no number.  The two zeros are the real
  \<open>0\<close>: no comparison of the sort tells them apart.  The columns \<open>popularity_score\<close> and
  \<open>price\<close> hold numbers (an \<open>int\<close> or a finite float) or \<open>NULL\<close>.
\<close>

definition fl :: "real \<Rightarrow> real" where
  \<comment> \<open>rounding to binary64\<close>
  "fl x = (case float_of_real \<bar>x\<bar> of
             Finite r \<Rightarrow> sgn x * r
           | Infinity \<Rightarrow> sgn x * pow2 1024)"

definition to_float :: "real \<Rightarrow> exn + real" where
  \<comment> \<open>\<open>float(v)\<close> for a number \<open>v\<close>\<close>
  "to_float v = (case float_of_real \<bar>v\<bar> of
                   Finite r \<Rightarrow> Inr (sgn v * r)
                 | Infinity \<Rightarrow> Inl OverflowError)"

definition fadd :: "real \<Rightarrow> real \<Rightarrow> real" where
  \<comment> \<open>the float sum \<open>a + x\<close>\<close>
  "fadd a x = (if pow2 1024 \<le> \<bar>a\<bar> then a else fl (a + x))"

definition score ::
    "string option \<Rightarrow> string list option \<Rightarrow> string option \<Rightarrow> product \<Rightarrow> exn + real" where
  \<comment> \<open>the local function \<open>score\<close>; \<open>float(None)\<close> and \<open>None >= 300\<close> raise \<open>TypeError\<close>,
      the literal \<open>0.2\<close> is the float \<open>fl (2 / 10)\<close>, and \<open>s -= t\<close> adds \<open>- t\<close>\<close>
  "score mood' dietary' nutrient item =
     (case popularity_score item of None \<Rightarrow> Inl TypeError
      | Some pop \<Rightarrow>
     (case to_float pop of Inl e \<Rightarrow> Inl e
      | Inr s0 \<Rightarrow>
     (let s1 = (case mood' of None \<Rightarrow> s0
            | Some m \<Rightarrow> if m = [] then s0
                else (case mood_tags item of None \<Rightarrow> s0
                      | Some tags \<Rightarrow> if m \<in> set tags then fadd s0 25 else s0)) in
     (case (case dietary' of None \<Rightarrow> Inr s1
            | Some ds \<Rightarrow> if ds = [] then Inr s1
                else (case to_float (real (12 * (case dietary_tags item of None \<Rightarrow> 0
                          | Some tags \<Rightarrow> length (filter (\<lambda>d. d \<in> set tags) ds)))) of
                        Inl e \<Rightarrow> Inl e
                      | Inr k \<Rightarrow> Inr (fadd s1 k))) of Inl e \<Rightarrow> Inl e
      | Inr s2 \<Rightarrow>
     (case (if nutrient = Some ''protein''
            then (case calories item of None \<Rightarrow> Inl TypeError
                  | Some c \<Rightarrow> Inr (if 300 \<le> c then fadd s2 10 else s2))
            else Inr s2) of Inl e \<Rightarrow> Inl e
      | Inr s3 \<Rightarrow>
     (case price item of None \<Rightarrow> Inl TypeError
      | Some p \<Rightarrow>
     (case to_float p of Inl e \<Rightarrow> Inl e
      | Inr pf \<Rightarrow> Inr (fadd s3 (- fl (pf * fl (2 / 10)))))))))))"

fun keys_of :: "('a \<Rightarrow> exn + real) \<Rightarrow> 'a list \<Rightarrow> exn + (real \<times> 'a) list" where
  \<comment> \<open>\<open>sorted\<close> calls the key function on every element, in order, before it sorts\<close>
  "keys_of f [] = Inr []"
| "keys_of f (x # xs) = (case f x of Inl e \<Rightarrow> Inl e
     | Inr k \<Rightarrow> (case keys_of f xs of Inl e \<Rightarrow> Inl e | Inr ks \<Rightarrow> Inr ((k, x) # ks)))"

definition sorted_reverse :: "(real \<times> 'a) list \<Rightarrow> 'a list" where
  \<comment> \<open>\<open>sorted(..., reverse=True)\<close>: descending keys, equal keys in their first order\<close>
  "sorted_reverse ks = map snd (sort_key (\<lambda>p. - fst p) ks)"

definition slice_to :: "int \<Rightarrow> 'a list \<Rightarrow> 'a list" where
  \<comment> \<open>the slice \<open>xs[:n]\<close>: a negative \<open>n\<close> counts from the end\<close>
  "slice_to n xs = (if 0 \<le> n then take (nat n) xs else take (length xs - nat (- n)) xs)"

definition rank_rows ::
    "string option \<Rightarrow> string list option \<Rightarrow> string option \<Rightarrow> int \<Rightarrow> product list
      \<Rightarrow> exn + product list" where
  \<comment> \<open>the part of \<open>recommend_by_preferences\<close> after \<open>fetch_products\<close> has returned \<open>rows\<close>\<close>
  "rank_rows mood' dietary' nutrient limit rows =
     (case keys_of (score mood' dietary' nutrient) rows of Inl e \<Rightarrow> Inl e
      | Inr ks \<Rightarrow> Inr (slice_to limit (sorted_reverse ks)))"

definition recommend_by_preferences ::
    "(string \<Rightarrow> sqlparam list \<Rightarrow> int \<Rightarrow> exn + product list)
      \<Rightarrow> string option \<Rightarrow> real option \<Rightarrow> string list option \<Rightarrow> string option \<Rightarrow> int
      \<Rightarrow> exn + product list" where
  \<comment> \<open>the first argument is \<open>fetch_products\<close> on the database at hand\<close>
  "recommend_by_preferences fetch_products mood' budget' dietary' nutrient limit =
     (case build_query mood' budget' dietary' nutrient of (wh, params) \<Rightarrow>
        (case fetch_products wh params 200 of Inl e \<Rightarrow> Inl e
         | Inr rows \<Rightarrow> rank_rows mood' dietary' nutrient limit rows))"

definition spec_score ::
    "string option \<Rightarrow> string list option \<Rightarrow> string option \<Rightarrow> product \<Rightarrow> real" where
  \<comment> \<open>the score as the specification words it, in exact arithmetic, for a row with a
      popularity score, a price and (where the nutrient is protein) calories\<close>
  "spec_score mood' dietary' nutrient item =
     (case popularity_score item of None \<Rightarrow> 0 | Some pop \<Rightarrow> pop)
     + (if (case mood' of None \<Rightarrow> False
            | Some m \<Rightarrow> m \<noteq> [] \<and> (case mood_tags item of None \<Rightarrow> False
                                        | Some tags \<Rightarrow> m \<in> set tags))
        then 25 else 0)
     + 12 * real (length (filter
           (\<lambda>d. case dietary_tags item of None \<Rightarrow> False | Some tags \<Rightarrow> d \<in> set tags)
           (case dietary' of None \<Rightarrow> [] | Some ds \<Rightarrow> ds)))
     + (if nutrient = Some ''protein'' \<and> (case calories item of None \<Rightarrow> False | Some c \<Rightarrow> 300 \<le> c)
        then 10 else 0)
     - (2 / 10) * (case price item of None \<Rightarrow> 0 | Some p \<Rightarrow> p)"

definition float_score ::
    "string option \<Rightarrow> string list option \<Rightarrow> string option \<Rightarrow> product \<Rightarrow> real" where
  \<comment> \<open>the score of the specification with every operation in floats, in the order of
      the source: the value of \<open>score\<close> where it raises nothing\<close>
  "float_score mood' dietary' nutrient item = (let
       s = fl (case popularity_score item of None \<Rightarrow> 0 | Some pop \<Rightarrow> pop);
       s = (if (case mood' of None \<Rightarrow> False
                | Some m \<Rightarrow> m \<noteq> [] \<and> (case mood_tags item of None \<Rightarrow> False
                                            | Some tags \<Rightarrow> m \<in> set tags))
            then fadd s 25 else s);
       s = (case dietary' of None \<Rightarrow> s
            | Some ds \<Rightarrow> if ds = [] then s
                else fadd s (fl (real (12 * length (filter
                  (\<lambda>d. case dietary_tags item of None \<Rightarrow> False | Some tags \<Rightarrow> d \<in> set tags)
                  ds)))));
       s = (if nutrient = Some ''protein''
               \<and> (case calories item of None \<Rightarrow> False | Some c \<Rightarrow> 300 \<le> c)
            then fadd s 10 else s)
     in fadd s (- fl (fl (case price item of None \<Rightarrow> 0 | Some p \<Rightarrow> p) * fl (2 / 10))))"

definition row_ok ::
    "string option \<Rightarrow> string list option \<Rightarrow> string option \<Rightarrow> product \<Rightarrow> bool" where
  \<comment> \<open>a row on which \<open>score\<close> raises nothing\<close>
  "row_ok mood' dietary' nutrient item =
     (case score mood' dietary' nutrient item of Inl e \<Rightarrow> False | Inr v \<Rightarrow> True)"

text \<open>
  \<open>collaborative_recommend\<close> is two SQL statements on the table \<open>products\<close>, here the list
  of its rows.  A comparison with \<open>NULL\<close> selects no row.  \<open>ORDER BY ... DESC\<close> puts the
  rows with a score in descending order (SQL leaves the order of equal scores open; the
  model keeps the table's) and the rows without one last.  \<open>LIMIT n\<close> with a negative \<open>n\<close>
  is no limit, and \<open>sqlite3\<close> raises \<open>OverflowError\<close> for a limit that is no 64-bit integer.
\<close>

definition sql_limit :: "int \<Rightarrow> 'a list \<Rightarrow> 'a list" where
  "sql_limit n xs = (if n < 0 then xs else take (nat n) xs)"

definition order_by_popularity_desc :: "product list \<Rightarrow> product list" where
  "order_by_popularity_desc rows =
     sort_key (\<lambda>r. - (case popularity_score r of None \<Rightarrow> 0 | Some v \<Rightarrow> v))
       (filter (\<lambda>r. popularity_score r \<noteq> None) rows)
     @ filter (\<lambda>r. popularity_score r = None) rows"

definition collaborative_recommend :: "product list \<Rightarrow> string \<Rightarrow> int \<Rightarrow> exn + product list" where
  "collaborative_recommend table pid limit =
     (case find (\<lambda>r. product_id r = Some pid) table of
        None \<Rightarrow> Inr []
      | Some r \<Rightarrow>
          if limit < - (2 ^ 63) \<or> 2 ^ 63 \<le> limit then Inl OverflowError
          else Inr (sql_limit limit (order_by_popularity_desc
                 (filter (\<lambda>x. category r \<noteq> None \<and> category x = category r
                             \<and> product_id x \<noteq> None \<and> product_id x \<noteq> Some pid) table))))"

definition popularity_ge :: "product \<Rightarrow> product \<Rightarrow> bool" where
  \<comment> \<open>\<open>a\<close> may stand before \<open>b\<close> in descending order of popularity, no score last\<close>
  "popularity_ge a b = (case popularity_score b of None \<Rightarrow> True
     | Some y \<Rightarrow> (case popularity_score a of None \<Rightarrow> False | Some x \<Rightarrow> y \<le> x))"

section \<open>convo_llm.py: service call with deterministic fallbacks\<close>


















section \<open>Properties of the engagement score\<close>

lemma factor_values:
  "factor ''mood_indication'' = 20" "factor ''dietary_restrictions'' = 10"
  "factor ''budget_mention'' = 5" "factor ''question_asking'' = 10"
  "factor ''enthusiasm_words'' = 8" "factor ''order_intent'' = 30"
  "factor ''specific_preferences'' = 15"
  by (simp_all add: factor_def ENGAGEMENT_FACTORS_def)

lemma turn_delta_sum:
  "turn_delta n =
     (if mood n \<noteq> None then 20 else 0)
   + 10 * int (length (case dietary n of None \<Rightarrow> [] | Some l \<Rightarrow> l))
   + (if budget n \<noteq> None then 5 else 0)
   + (if question n then 10 else 0)
   + (if enthusiasm n then 8 else 0)
   + (if order_flag n then 30 else 0)
   + (if spicy n then 15 else 0)"
  by (simp add: turn_delta_def factor_values Let_def)

lemma turn_delta_nonneg: "0 \<le> turn_delta n"
  by (simp add: turn_delta_sum)

lemma update_unfold:
  "update_context_and_score ctx uuid text =
     (let c = (case ctx of None \<Rightarrow> init_context uuid | Some c \<Rightarrow> c);
          n = simple_nlu text; d = turn_delta n;
          s = max 0 (min 100 (accumulated_score c + d))
      in (c\<lparr>history := history c @ [\<lparr>role = ''user'', turn_text = text, turn_nlu = n, score_delta = d\<rparr>],
            accumulated_score := s\<rparr>, d, s, n))"
  by (simp add: update_context_and_score_def Let_def)

text \<open>
  Claim C1.  After \<open>update_context_and_score\<close> the accumulated score is
  \<open>max 0 (min 100 (previous + score_delta))\<close>, the clamp of the sum to the interval from 0
  to 100, whatever the previous score and the delta are; it is the score stored in the
  returned context, and it lies between 0 and 100.  A call without a context starts
  from the score 0 of a new context.
\<close>
theorem C1_accumulated_score_clamped:
  "(case update_context_and_score (Some c) uuid text of (c', d, s, n) \<Rightarrow>
      s = max 0 (min 100 (accumulated_score c + d)) \<and> accumulated_score c' = s
      \<and> 0 \<le> s \<and> s \<le> 100)
   \<and> (case update_context_and_score None uuid text of (c', d, s, n) \<Rightarrow>
      s = max 0 (min 100 (0 + d)) \<and> accumulated_score c' = s \<and> 0 \<le> s \<and> s \<le> 100)"
  by (simp add: update_unfold Let_def init_context_def)

text \<open>
  Claim C9.  A call of \<open>update_context_and_score\<close> returns the given context with exactly
  two fields written: \<open>history\<close>, which gains one turn at its end (role \<open>user\<close>, the raw
  text, the extracted slots and the delta), and \<open>accumulated_score\<close>.  The fields
  \<open>session_id\<close>, \<open>intents\<close> and \<open>seen_intents\<close> are the ones of the given context.
\<close>
theorem C9_one_turn_appended:
  "case update_context_and_score (Some c) uuid text of (c', d, s, n) \<Rightarrow>
     c' = c\<lparr>history := history c @
              [\<lparr>role = ''user'', turn_text = text, turn_nlu = simple_nlu text, score_delta = d\<rparr>],
            accumulated_score := s\<rparr>
     \<and> n = simple_nlu text
     \<and> length (history c') = length (history c) + 1
     \<and> session_id c' = session_id c \<and> intents c' = intents c
     \<and> seen_intents c' = seen_intents c
     \<and> history (fst (update_context_and_score None uuid text))
         = [\<lparr>role = ''user'', turn_text = text, turn_nlu = simple_nlu text, score_delta = d\<rparr>]
     \<and> session_id (fst (update_context_and_score None uuid text)) = uuid
     \<and> intents (fst (update_context_and_score None uuid text)) = Map.empty
     \<and> seen_intents (fst (update_context_and_score None uuid text)) = {}"
  by (simp add: update_unfold Let_def init_context_def)





text \<open>
  Claim C10.  The delta of every turn is at least 0 (no negative weight is ever added), so
  a call on a context whose score is at most 100 (as the score of a new context and every
  score that a call has stored are) returns a score that is not below the previous one,
  and again at most 100; a call without a context returns a score of at least 0.  For
  two calls in a row, on any context, the second score is not below the first.
\<close>
theorem C10_score_never_decreases:
  assumes "accumulated_score c \<le> 100"
  shows "(case update_context_and_score (Some c) uuid text of (c', d, s, n) \<Rightarrow>
           0 \<le> d \<and> d = turn_delta (simple_nlu text)
           \<and> accumulated_score c \<le> s \<and> accumulated_score c' = s \<and> s \<le> 100)
       \<and> (case update_context_and_score None uuid text of (c', d, s, n) \<Rightarrow>
           0 \<le> d \<and> 0 \<le> s \<and> accumulated_score c' = s \<and> s \<le> 100)
       \<and> (case update_context_and_score ctx uuid text of (c1, d1, s1, n1) \<Rightarrow>
           case update_context_and_score (Some c1) uuid text2 of (c2, d2, s2, n2) \<Rightarrow>
             s1 \<le> s2)"
  using assms turn_delta_nonneg [of "simple_nlu text"] turn_delta_nonneg [of "simple_nlu text2"]
  by (simp add: update_unfold Let_def init_context_def)

theorem C10_witness:
  "accumulated_score (init_context ''s1'') \<le> 100
   \<and> (case update_context_and_score (Some (init_context ''s1'')) ''u1'' ''I love spicy food?'' of
        (c', d, s, n) \<Rightarrow> 0 \<le> d \<and> d = turn_delta (simple_nlu ''I love spicy food?'')
                          \<and> accumulated_score (init_context ''s1'') \<le> s
                          \<and> accumulated_score c' = s \<and> s \<le> 100)
   \<and> fst (snd (update_context_and_score (Some (init_context ''s1'')) ''u1''
                   ''I love spicy food?'')) = 33"
proof -
  have h: "accumulated_score (init_context ''s1'') \<le> 100"
    by (simp add: init_context_def)
  have v: "fst (snd (update_context_and_score (Some (init_context ''s1'')) ''u1''
                       ''I love spicy food?'')) = 33"
    by code_simp
  show ?thesis
    by (intro conjI h v conjunct1 [OF C10_score_never_decreases [OF h]])
qed


section \<open>Properties of the deterministic extractor\<close>

lemma dietary_loop_frame:
  "budget (dietary_loop ds t acc) = budget acc"
  "mood (dietary_loop ds t acc) = mood acc"
  by (induction ds t acc rule: dietary_loop.induct) simp_all

lemma mood_loop_budget: "budget (mood_loop ms t acc) = budget acc"
  by (induction ms t acc rule: mood_loop.induct) simp_all

lemma mood_loop_find:
  "mood (mood_loop ms t acc) =
     (case find (\<lambda>m. sublist m t) ms of None \<Rightarrow> mood acc | Some m \<Rightarrow> Some m)"
  by (induction ms t acc rule: mood_loop.induct) simp_all

lemma simple_nlu_mood:
  "mood (simple_nlu text) = find (\<lambda>m. sublist m (lower text)) MOODS"
  by (simp add: simple_nlu_def Let_def mood_loop_find dietary_loop_frame empty_nlu_def
           split: option.split)

lemma simple_nlu_budget:
  "budget (simple_nlu text) =
     (if truthy (extract_budget (lower text)) then extract_budget (lower text) else None)"
  by (simp add: simple_nlu_def Let_def mood_loop_budget dietary_loop_frame empty_nlu_def)

lemma sublist_lower: "sublist a b \<Longrightarrow> sublist (lower a) (lower b)"
  unfolding sublist_def lower_def by (metis map_append)

lemma lower_cozy: "lower ''cozy'' = ''cozy''" "lower ''adventurous'' = ''adventurous''"
  by code_simp+

text \<open>
  Claim C5.  The mood of the deterministic extractor is single-valued and ordered by
  priority: it is the first keyword of the list adventurous, comfort, healthy, indulgent,
  quick, refreshing, cozy, party that occurs in the lower-cased message, and it is absent
  exactly when none occurs.  A message with both \<open>cozy\<close> and \<open>adventurous\<close> has the mood
  \<open>adventurous\<close>.
\<close>
theorem C5_mood_first_match:
  "mood (simple_nlu text) = find (\<lambda>m. sublist m (lower text)) MOODS
   \<and> MOODS = [''adventurous'', ''comfort'', ''healthy'', ''indulgent'', ''quick'',
              ''refreshing'', ''cozy'', ''party'']
   \<and> (\<forall>m. mood (simple_nlu text) = Some m \<longleftrightarrow>
          (\<exists>i < length MOODS. MOODS ! i = m \<and> sublist m (lower text)
             \<and> (\<forall>j < i. \<not> sublist (MOODS ! j) (lower text))))
   \<and> (mood (simple_nlu text) = None \<longleftrightarrow> (\<forall>m \<in> set MOODS. \<not> sublist m (lower text)))
   \<and> (sublist ''cozy'' (lower text) \<and> sublist ''adventurous'' (lower text)
        \<longrightarrow> mood (simple_nlu text) = Some ''adventurous'')
   \<and> (sublist ''cozy'' text \<and> sublist ''adventurous'' text
        \<longrightarrow> mood (simple_nlu text) = Some ''adventurous'')"
proof (intro conjI allI impI)
  show "mood (simple_nlu text) = find (\<lambda>m. sublist m (lower text)) MOODS"
    by (rule simple_nlu_mood)
  show "MOODS = [''adventurous'', ''comfort'', ''healthy'', ''indulgent'', ''quick'',
              ''refreshing'', ''cozy'', ''party'']"
    by (rule MOODS_def)
  show "mood (simple_nlu text) = Some m \<longleftrightarrow>
          (\<exists>i < length MOODS. MOODS ! i = m \<and> sublist m (lower text)
             \<and> (\<forall>j < i. \<not> sublist (MOODS ! j) (lower text)))" for m
    unfolding simple_nlu_mood find_Some_iff by blast
  show "mood (simple_nlu text) = None \<longleftrightarrow> (\<forall>m \<in> set MOODS. \<not> sublist m (lower text))"
    unfolding simple_nlu_mood find_None_iff by blast
  have adv: "mood (simple_nlu text) = Some ''adventurous''"
    if "sublist ''adventurous'' (lower text)"
    using that by (simp add: simple_nlu_mood MOODS_def)
  show "mood (simple_nlu text) = Some ''adventurous''"
    if "sublist ''cozy'' (lower text) \<and> sublist ''adventurous'' (lower text)"
    using that adv by blast
  show "mood (simple_nlu text) = Some ''adventurous''"
    if "sublist ''cozy'' text \<and> sublist ''adventurous'' text"
    using that adv sublist_lower [of "''adventurous''" "text"] by (simp add: lower_cozy)
qed

theorem C5_witness:
  "sublist ''cozy'' ''Something COZY but Adventurous for a party''
     = False
   \<and> sublist ''cozy'' (lower ''Something COZY but Adventurous for a party'')
   \<and> sublist ''adventurous'' (lower ''Something COZY but Adventurous for a party'')
   \<and> mood (simple_nlu ''Something COZY but Adventurous for a party'') = Some ''adventurous''
   \<and> (\<exists>i < length MOODS. MOODS ! i = ''adventurous'')"
proof -
  let ?t = "''Something COZY but Adventurous for a party''"
  have a: "sublist ''cozy'' (lower ?t)" by code_simp
  have b: "sublist ''adventurous'' (lower ?t)" by code_simp
  have c: "sublist ''cozy'' ?t = False" by code_simp
  note inst = C5_mood_first_match [of ?t]
  have m: "mood (simple_nlu ?t) = Some ''adventurous''"
    using inst a b by blast
  have "\<exists>i < length MOODS. MOODS ! i = ''adventurous''"
    using inst m by blast
  with a b c m show ?thesis by blast
qed


subsection \<open>The budget patterns\<close>

lemma re_search_None:
  "(\<And>t. suffix t s \<Longrightarrow> m t = None) \<Longrightarrow> re_search m s = None"
proof (induction s)
  case Nil
  then show ?case by simp
next
  case (Cons c s)
  have "m (c # s) = None" using Cons.prems by simp
  moreover have "re_search m s = None"
    using Cons.prems by (intro Cons.IH) (simp add: suffix_Cons)
  ultimately show ?case by simp
qed

lemma re_search_among:
  "(\<And>t. suffix t s \<Longrightarrow> m t = None \<or> m t = Some g)
     \<Longrightarrow> re_search m s = None \<or> re_search m s = Some g"
proof (induction s)
  case Nil
  then show ?case by simp
next
  case (Cons c s)
  have h: "m (c # s) = None \<or> m (c # s) = Some g" using Cons.prems by simp
  have "re_search m s = None \<or> re_search m s = Some g"
    using Cons.prems by (intro Cons.IH) (simp add: suffix_Cons)
  with h show ?case by auto
qed

lemma re_search_skip:
  "(\<And>p. p \<noteq> [] \<Longrightarrow> suffix p pre \<Longrightarrow> m (p @ s) = None)
     \<Longrightarrow> re_search m (pre @ s) = re_search m s"
proof (induction pre)
  case Nil
  then show ?case by simp
next
  case (Cons c pre)
  have "m ((c # pre) @ s) = None" by (rule Cons.prems) simp_all
  moreover have "re_search m (pre @ s) = re_search m s"
    using Cons.prems by (intro Cons.IH) (simp add: suffix_Cons)
  ultimately show ?case by simp
qed

lemma class_facts:
  "\<not> is_digit CHR ''$''" "\<not> is_space CHR ''$''" "is_digit CHR ''1''" "is_digit CHR ''2''"
  "\<not> is_space CHR ''1''" "\<not> is_digit CHR ''.''"
  by (simp_all add: is_digit_def is_space_def)

lemma number_at_no_digit: "(\<And>c t. s = c # t \<Longrightarrow> \<not> is_digit c) \<Longrightarrow> number_at s = None"
  by (cases s) (simp_all add: number_at_def)

lemma number_at_12:
  assumes "\<And>c t. post = c # t \<Longrightarrow> \<not> is_digit c"
    and "\<And>d t. post = CHR ''.'' # d # t \<Longrightarrow> \<not> is_digit d"
  shows "number_at (''12'' @ post) = Some ''12''"
proof (cases post)
  case Nil
  then show ?thesis by (simp add: number_at_def class_facts)
next
  case (Cons c t)
  then have c: "\<not> is_digit c" using assms(1) by simp
  show ?thesis
  proof (cases "c = CHR ''.''")
    case False
    then show ?thesis using Cons c by (simp add: number_at_def class_facts)
  next
    case True
    then have "takeWhile is_digit t = []"
      using assms(2) Cons by (cases t) simp_all
    then show ?thesis using Cons c True by (simp add: number_at_def class_facts)
  qed
qed


lemma round_half_even_of_int: "round_half_even (of_int z) = z"
  by (simp add: round_half_even_def)

lemma float_of_nat_exact:
  assumes "0 < n" and "n < 2 ^ 53"
  shows "float_of_real (of_nat n) = Finite (of_nat n)"
proof -
  let ?k = "bitlen (int n)"
  have k1: "1 \<le> ?k" using assms(1) by (simp add: bitlen_ge_iff_power)
  have k53: "?k \<le> 53" using assms(2) less_power_nat_iff_bitlen [of n 53] by simp
  have fl: "floor_log2 (of_nat n) = ?k - 1"
    using assms(1) by (simp add: floor_log2_def)
  define j where "j = nat (53 - ?k)"
  have e: "max (floor_log2 (real n) - 52) (- 1074) = - int j"
    using k1 k53 by (simp add: fl j_def)
  have p: "pow2 (- int j) = 1 / 2 ^ j"
    by (cases "j = 0") (simp_all add: pow2_def)
  have q: "real n / pow2 (- int j) = of_int (int n * 2 ^ j)"
    by (simp add: p)
  have m: "round_half_even (real n / pow2 (- int j)) = int n * 2 ^ j"
    unfolding q by (rule round_half_even_of_int)
  have v: "of_int (int n * 2 ^ j) * pow2 (- int j) = real n"
    by (simp add: p)
  have "real n < 2 ^ 53" using assms(2) by (metis of_nat_less_numeral_power_cancel_iff)
  also have "\<dots> \<le> (2::real) ^ 1024" by (rule power_increasing) simp_all
  finally have b: "\<not> pow2 1024 \<le> real n" by (simp add: pow2_def)
  have nz: "real n \<noteq> 0" using assms(1) by simp
  have "float_of_real (real n) =
      (if pow2 1024 \<le> of_int (round_half_even (real n / pow2 (- int j))) * pow2 (- int j)
       then Infinity
       else Finite (of_int (round_half_even (real n / pow2 (- int j))) * pow2 (- int j)))"
    unfolding float_of_real_def Let_def e using nz by (simp only: if_False)
  also have "\<dots> = Finite (real n)"
    unfolding m v using b by (simp only: if_False)
  finally show ?thesis .
qed

lemma float_of_numeral_exact:
  "float_of_real 12 = Finite 12" "float_of_real 120 = Finite 120"
  "float_of_real 5 = Finite 5" "float_of_real 10 = Finite 10"
  using float_of_nat_exact [of 12] float_of_nat_exact [of 120]
    float_of_nat_exact [of 5] float_of_nat_exact [of 10]
  by simp_all

lemma py_float_values:
  "py_float ''12'' = Finite 12" "py_float ''120'' = Finite 120" "py_float ''5'' = Finite 5"
  "py_float ''10'' = Finite 10"
  by (simp_all add: py_float_def is_digit_def nat_of_digits_def digit_val_def
        float_of_numeral_exact)

lemma search_values:
  "re_search match_under (lower ''a $120 dinner'') = None"
  "re_search match_dollar (lower ''a $120 dinner'') = Some ''120''"
  "re_search match_under (lower ''under $5 or $12'') = Some ''5''"
  "re_search match_under (lower ''under 12'') = Some ''12''"
  by code_simp+

lemma py_float_12: "py_float ''12'' = Finite 12" "truthy (Some (Finite 12))"
  by (simp_all add: py_float_values truthy_def)

lemma of_char_lower_char:
  "(of_char (lower_char c) :: nat) =
     (if (65 \<le> (of_char c :: nat) \<and> (of_char c :: nat) \<le> 90)
         \<or> (192 \<le> (of_char c :: nat) \<and> (of_char c :: nat) \<le> 222 \<and> (of_char c :: nat) \<noteq> 215)
      then of_char c + 32 else of_char c)"
  by (simp add: lower_char_def Let_def of_char_of take_bit_eq_mod)

lemma lower_char_dollar: "lower_char c = CHR ''$'' \<longleftrightarrow> c = CHR ''$''"
proof -
  have "lower_char c = CHR ''$'' \<longleftrightarrow> (of_char (lower_char c) :: nat) = of_char CHR ''$''"
    by (simp only: of_char_eq_iff)
  also have "\<dots> \<longleftrightarrow> (of_char c :: nat) = of_char CHR ''$''"
    unfolding of_char_lower_char by auto
  also have "\<dots> \<longleftrightarrow> c = CHR ''$''"
    by (simp only: of_char_eq_iff)
  finally show ?thesis .
qed

lemma dollar_in_lower: "CHR ''$'' \<in> set (lower s) \<longleftrightarrow> CHR ''$'' \<in> set s"
  unfolding lower_def set_map image_iff by (metis lower_char_dollar)

lemma skip_to_dollar:
  assumes "\<forall>c \<in> set q. \<not> is_digit c"
  shows "number_at (dropWhile is_space (q @ CHR ''$'' # r)) = None"
proof -
  have eq: "dropWhile is_space (q @ CHR ''$'' # r) = dropWhile is_space q @ CHR ''$'' # r"
    by (simp add: dropWhile_append3 class_facts)
  have "\<not> is_digit c" if "dropWhile is_space q @ CHR ''$'' # r = c # t" for c t
  proof (cases "dropWhile is_space q")
    case Nil
    with that have "c = CHR ''$''" by simp
    then show ?thesis by (simp add: class_facts)
  next
    case (Cons a as)
    then have "a \<in> set q" by (metis list.set_intros(1) set_dropWhileD)
    with that Cons assms show ?thesis by simp
  qed
  then show ?thesis unfolding eq by (rule number_at_no_digit)
qed

lemma under_pieces:
  assumes q: "\<forall>c \<in> set q. \<not> is_digit c"
    and n12: "number_at (''12'' @ post) = Some ''12''"
  shows "number_at (dropWhile is_space (opt_dollar (dropWhile is_space (q @ ''$12'' @ post))))
           = None
       \<or> number_at (dropWhile is_space (opt_dollar (dropWhile is_space (q @ ''$12'' @ post))))
           = Some ''12''"
proof -
  let ?r = "''12'' @ post"
  have eq: "dropWhile is_space (q @ ''$12'' @ post) = dropWhile is_space q @ CHR ''$'' # ?r"
    by (simp add: dropWhile_append3 class_facts)
  show ?thesis
  proof (cases "dropWhile is_space q")
    case Nil
    have "dropWhile is_space (opt_dollar (dropWhile is_space (q @ ''$12'' @ post))) = ?r"
      unfolding eq Nil by (simp add: opt_dollar_def class_facts)
    with n12 show ?thesis by simp
  next
    case (Cons a as)
    have sub: "set (a # as) \<subseteq> set q"
      using Cons set_dropWhileD [of _ is_space q] by auto
    have "\<exists>q'. (\<forall>c \<in> set q'. \<not> is_digit c) \<and>
            opt_dollar (dropWhile is_space (q @ ''$12'' @ post)) = q' @ CHR ''$'' # ?r"
    proof (cases "a = CHR ''$''")
      case True
      have "opt_dollar (dropWhile is_space (q @ ''$12'' @ post)) = as @ CHR ''$'' # ?r"
        unfolding eq Cons using True by (simp add: opt_dollar_def)
      moreover have "\<forall>c \<in> set as. \<not> is_digit c" using sub q by auto
      ultimately show ?thesis by blast
    next
      case False
      have "opt_dollar (dropWhile is_space (q @ ''$12'' @ post)) = (a # as) @ CHR ''$'' # ?r"
        unfolding eq Cons using False by (simp add: opt_dollar_def)
      moreover have "\<forall>c \<in> set (a # as). \<not> is_digit c" using sub q by auto
      ultimately show ?thesis by blast
    qed
    then obtain q' where q': "\<forall>c \<in> set q'. \<not> is_digit c"
      and o: "opt_dollar (dropWhile is_space (q @ ''$12'' @ post)) = q' @ CHR ''$'' # ?r"
      by blast
    show ?thesis unfolding o using skip_to_dollar [OF q'] by simp
  qed
qed

lemma match_under_before:
  assumes p: "\<forall>c \<in> set p. \<not> is_digit c"
    and n12: "number_at (''12'' @ post) = Some ''12''"
  shows "match_under (p @ ''$12'' @ post) = None \<or> match_under (p @ ''$12'' @ post) = Some ''12''"
proof (cases "prefix ''under'' (p @ ''$12'' @ post)")
  case False
  then show ?thesis by (simp add: match_under_def)
next
  case True
  then consider "prefix ''under'' p"
    | us where "''under'' = p @ us" "prefix us (''$12'' @ post)" "us \<noteq> []"
    unfolding prefix_append by (cases "prefix ''under'' p") auto
  then have "prefix ''under'' p"
  proof cases
    case 1
    then show ?thesis .
  next
    case 2
    then obtain u us' where "us = u # us'" by (cases us) auto
    with 2(2) have "u = CHR ''$''" by simp
    with \<open>us = u # us'\<close> 2(1) have "CHR ''$'' \<in> set ''under''"
      by (metis in_set_conv_decomp)
    then show ?thesis by simp
  qed
  then obtain q where pq: "p = ''under'' @ q" by (auto simp: prefix_def)
  then have q: "\<forall>c \<in> set q. \<not> is_digit c" using p by simp
  have "match_under (p @ ''$12'' @ post)
          = number_at (dropWhile is_space (opt_dollar (dropWhile is_space (q @ ''$12'' @ post))))"
    using True by (simp add: match_under_def pq)
  with under_pieces [OF q n12] show ?thesis by simp
qed

lemma match_under_after:
  assumes "suffix t (''$12'' @ post)" and "\<not> sublist ''under'' post"
  shows "match_under t = None"
proof (cases "prefix ''under'' t")
  case False
  then show ?thesis by (simp add: match_under_def)
next
  case True
  from assms(1) have "t = ''$12'' @ post \<or> t = ''12'' @ post \<or> t = ''2'' @ post \<or> suffix t post"
    by (auto simp: suffix_Cons)
  with True have "suffix t post" by auto
  with True have "sublist ''under'' post"
    by (auto simp: prefix_def suffix_def sublist_def)
  with assms(2) show ?thesis by simp
qed

lemma search_under_12:
  assumes p: "\<forall>c \<in> set pre. \<not> is_digit c"
    and n12: "number_at (''12'' @ post) = Some ''12''"
    and nu: "\<not> sublist ''under'' post"
  shows "re_search match_under (pre @ ''$12'' @ post) = None
       \<or> re_search match_under (pre @ ''$12'' @ post) = Some ''12''"
proof (rule re_search_among)
  fix t assume "suffix t (pre @ ''$12'' @ post)"
  then consider "suffix t (''$12'' @ post)"
    | p' where "suffix p' pre" "t = p' @ ''$12'' @ post"
    unfolding suffix_append by blast
  then show "match_under t = None \<or> match_under t = Some ''12''"
  proof cases
    case 1
    then show ?thesis using match_under_after [OF _ nu] by simp
  next
    case 2
    then have "set p' \<subseteq> set pre" by (intro set_mono_suffix)
    then have "\<forall>c \<in> set p'. \<not> is_digit c" using p by auto
    from match_under_before [OF this n12] 2 show ?thesis by simp
  qed
qed

lemma search_dollar_12:
  assumes p: "\<forall>c \<in> set pre. \<not> is_digit c"
    and n12: "number_at (''12'' @ post) = Some ''12''"
  shows "re_search match_dollar (pre @ ''$12'' @ post) = Some ''12''"
proof -
  have "re_search match_dollar (pre @ ''$12'' @ post) = re_search match_dollar (''$12'' @ post)"
  proof (rule re_search_skip)
    fix p' assume ne: "p' \<noteq> []" and su: "suffix p' pre"
    then obtain a as where c: "p' = a # as" by (cases p') auto
    have "set p' \<subseteq> set pre" using su by (rule set_mono_suffix)
    then have "\<forall>c \<in> set as. \<not> is_digit c" using p c by auto
    from skip_to_dollar [OF this] show "match_dollar (p' @ ''$12'' @ post) = None"
      by (simp add: match_dollar_def c)
  qed
  also have "\<dots> = Some ''12''"
    using n12 by (simp add: match_dollar_def class_facts)
  finally show ?thesis .
qed

lemma extract_budget_12:
  assumes "\<forall>c \<in> set pre. \<not> is_digit c"
    and "number_at (''12'' @ post) = Some ''12''"
    and "\<not> sublist ''under'' post"
  shows "extract_budget (pre @ ''$12'' @ post) = Some (Finite 12)"
  using search_under_12 [OF assms] search_dollar_12 [OF assms(1,2)]
  by (auto simp: extract_budget_def py_float_12)

lemma extract_budget_absent:
  assumes "CHR ''$'' \<notin> set s" and "\<not> sublist ''under'' s"
  shows "extract_budget s = None"
proof -
  have u: "re_search match_under s = None"
  proof (rule re_search_None)
    fix t assume "suffix t s"
    then have "\<not> prefix ''under'' t"
      using assms(2) by (auto simp: prefix_def suffix_def sublist_def)
    then show "match_under t = None" by (simp add: match_under_def)
  qed
  have d: "re_search match_dollar s = None"
  proof (rule re_search_None)
    fix t assume "suffix t s"
    then have "set t \<subseteq> set s" by (rule set_mono_suffix)
    with assms(1) show "match_dollar t = None"
      by (cases t) (auto simp: match_dollar_def)
  qed
  show ?thesis by (simp add: extract_budget_def u d)
qed


text \<open>
  Claim C4 as stated fails: \<open>$120\<close> contains \<open>$12\<close> and gives 120.0, in
  \<open>under $5 or $12\<close> the first pattern wins with 5.0, and \<open>under 12\<close> has no dollar sign
  and still gives the budget 12.0, since the dollar sign of the first pattern is optional.
\<close>
theorem C4_counterexample:
  "sublist ''$12'' ''a $120 dinner''
   \<and> budget (simple_nlu ''a $120 dinner'') = Some (Finite 120)
   \<and> budget (simple_nlu ''a $120 dinner'') \<noteq> Some (Finite 12)
   \<and> sublist ''$12'' ''under $5 or $12''
   \<and> budget (simple_nlu ''under $5 or $12'') = Some (Finite 5)
   \<and> budget (simple_nlu ''under $5 or $12'') \<noteq> Some (Finite 12)
   \<and> CHR ''$'' \<notin> set ''under 12''
   \<and> budget (simple_nlu ''under 12'') = Some (Finite 12)
   \<and> budget (simple_nlu ''under 12'') \<noteq> None"
proof -
  have a: "sublist ''$12'' ''a $120 dinner''" "sublist ''$12'' ''under $5 or $12''"
    by code_simp+
  have b: "budget (simple_nlu ''a $120 dinner'') = Some (Finite 120)"
    "budget (simple_nlu ''under $5 or $12'') = Some (Finite 5)"
    "budget (simple_nlu ''under 12'') = Some (Finite 12)"
    by (simp_all add: simple_nlu_budget extract_budget_def search_values py_float_values
          truthy_def)
  show ?thesis unfolding b using a by simp
qed

text \<open>
  Claim C4, as amended.  When the lower-cased message is \<open>pre @ ''$12'' @ post\<close>, with no
  digit in \<open>pre\<close>, with \<open>post\<close> starting neither with a digit nor with a point and a
  digit, and with no \<open>under\<close> in \<open>post\<close>, the budget slot is 12.0 (this covers
  \<open>under $12\<close>).  When the message has no dollar sign and its lower-cased form has no
  \<open>under\<close>, the budget slot is absent.
\<close>
theorem C4_budget_twelve_amended:
  "(lower msg = pre @ ''$12'' @ post
      \<and> (\<forall>c \<in> set pre. \<not> is_digit c)
      \<and> (\<forall>c t. post = c # t \<longrightarrow> \<not> is_digit c)
      \<and> (\<forall>d t. post = CHR ''.'' # d # t \<longrightarrow> \<not> is_digit d)
      \<and> \<not> sublist ''under'' post
     \<longrightarrow> budget (simple_nlu msg) = Some (Finite 12))
   \<and> (CHR ''$'' \<notin> set msg \<and> \<not> sublist ''under'' (lower msg)
     \<longrightarrow> budget (simple_nlu msg) = None)"
proof (intro conjI impI)
  assume h: "lower msg = pre @ ''$12'' @ post
      \<and> (\<forall>c \<in> set pre. \<not> is_digit c)
      \<and> (\<forall>c t. post = c # t \<longrightarrow> \<not> is_digit c)
      \<and> (\<forall>d t. post = CHR ''.'' # d # t \<longrightarrow> \<not> is_digit d)
      \<and> \<not> sublist ''under'' post"
  then have n12: "number_at (''12'' @ post) = Some ''12''"
    by (intro number_at_12) blast+
  from h have "extract_budget (lower msg) = Some (Finite 12)"
    using extract_budget_12 [OF _ n12, of pre] by simp
  then show "budget (simple_nlu msg) = Some (Finite 12)"
    by (simp add: simple_nlu_budget py_float_12)
next
  assume "CHR ''$'' \<notin> set msg \<and> \<not> sublist ''under'' (lower msg)"
  then have "extract_budget (lower msg) = None"
    by (intro extract_budget_absent) (simp_all add: dollar_in_lower)
  then show "budget (simple_nlu msg) = None"
    by (simp add: simple_nlu_budget)
qed

theorem C4_witness:
  "lower ''Something under $12 please'' = ''something under '' @ ''$12'' @ '' please''
   \<and> list_all (\<lambda>c. \<not> is_digit c) ''something under ''
   \<and> \<not> sublist ''under'' '' please''
   \<and> budget (simple_nlu ''Something under $12 please'') = Some (Finite 12)
   \<and> CHR ''$'' \<notin> set ''Surprise me''
   \<and> \<not> sublist ''under'' (lower ''Surprise me'')
   \<and> budget (simple_nlu ''Surprise me'') = None"
proof -
  have a: "lower ''Something under $12 please'' = ''something under '' @ ''$12'' @ '' please''"
    by code_simp
  have b': "list_all (\<lambda>c. \<not> is_digit c) ''something under ''" by code_simp
  then have b: "\<forall>c \<in> set ''something under ''. \<not> is_digit c"
    by (simp only: list_all_iff)
  have c: "\<forall>c t. '' please'' = c # t \<longrightarrow> \<not> is_digit c"
    by (simp add: is_digit_def)
  have d: "\<forall>d t. '' please'' = CHR ''.'' # d # t \<longrightarrow> \<not> is_digit d" by simp
  have e: "\<not> sublist ''under'' '' please''" by code_simp
  have f: "CHR ''$'' \<notin> set ''Surprise me''" by simp
  have g: "\<not> sublist ''under'' (lower ''Surprise me'')" by code_simp
  have one: "budget (simple_nlu ''Something under $12 please'') = Some (Finite 12)"
    using conjunct1 [OF C4_budget_twelve_amended
        [where msg = "''Something under $12 please''" and pre = "''something under ''"
           and post = "'' please''"]] a b c d e
    by blast
  have two: "budget (simple_nlu ''Surprise me'') = None"
    using conjunct2 [OF C4_budget_twelve_amended [where msg = "''Surprise me''"]] f g
    by blast
  from a b' e one f g two show ?thesis by blast
qed


section \<open>Properties of the fallbacks of convo_llm.py\<close>






subsection \<open>The reply fallback\<close>










section \<open>Properties of the recommender\<close>

subsection \<open>Rounding to binary64\<close>

text \<open>
  A positive real \<open>q\<close> in the binade \<open>2 ^ k \<le> q < 2 ^ (k + 1)\<close> of a normal float rounds
  to \<open>m * 2 ^ (k - 52)\<close> for the integer \<open>m\<close> that is less than a half away from
  \<open>q / 2 ^ (k - 52)\<close>; the floats of the examples below are computed with this.
\<close>

lemma pow2_powr: "pow2 e = 2 powr (of_int e)"
proof (cases "0 \<le> e")
  case True
  then have "2 powr (of_int e) = (2::real) powr (real (nat e))" by simp
  also have "\<dots> = 2 ^ nat e" by (simp add: powr_realpow)
  finally show ?thesis using True by (simp add: pow2_def)
next
  case False
  then have "(2::real) powr (of_int e) = 2 powr (- real (nat (- e)))" by simp
  also have "\<dots> = 1 / 2 ^ nat (- e)" by (simp add: powr_minus powr_realpow divide_inverse)
  finally show ?thesis using False by (simp add: pow2_def)
qed

lemma pow2_pos [simp]: "0 < pow2 e"
  by (simp add: pow2_powr)

lemma pow2_add: "pow2 (a + b) = pow2 a * pow2 b"
  by (simp add: pow2_powr powr_add)

lemma pow2_mono: "a \<le> b \<Longrightarrow> pow2 a \<le> pow2 b"
  by (simp add: pow2_powr)

lemma pow2_nat: "pow2 (int n) = 2 ^ n"
  by (simp add: pow2_def)

lemma floor_log2_eq:
  assumes lo: "pow2 k \<le> q" and hi: "q < pow2 (k + 1)"
  shows "floor_log2 q = k"
proof (cases "1 \<le> q")
  case True
  have k0: "0 \<le> k"
  proof (rule ccontr)
    assume "\<not> 0 \<le> k"
    then have "k + 1 \<le> 0" by simp
    then have "pow2 (k + 1) \<le> pow2 0" by (rule pow2_mono)
    with hi True show False by (simp add: pow2_def)
  qed
  have a: "(2::int) ^ nat k \<le> \<lfloor>q\<rfloor>"
  proof -
    have "real_of_int (2 ^ nat k) \<le> q" using lo k0 by (simp add: pow2_def)
    then show ?thesis by (simp only: le_floor_iff)
  qed
  have b: "\<lfloor>q\<rfloor> < (2::int) ^ nat (k + 1)"
  proof -
    have "q < real_of_int (2 ^ nat (k + 1))" using hi k0 by (simp add: pow2_def)
    then show ?thesis by (simp only: floor_less_iff)
  qed
  have "bitlen \<lfloor>q\<rfloor> \<le> k + 1" using b k0 by (simp add: bitlen_le_iff_power)
  moreover have "k + 1 \<le> bitlen \<lfloor>q\<rfloor>"
    using a k0 by (simp add: bitlen_ge_iff_power nat_add_distrib)
  ultimately show ?thesis using True by (simp add: floor_log2_def)
next
  case False
  then have q1: "q < 1" by simp
  have qpos: "0 < q" using lo pow2_pos [of k] by linarith
  have kneg: "k < 0"
  proof (rule ccontr)
    assume "\<not> k < 0"
    then have "pow2 0 \<le> pow2 k" by (intro pow2_mono) simp
    with lo q1 show False by (simp add: pow2_def)
  qed
  define j where "j = nat (- k)"
  have j: "0 < j" "k = - int j" using kneg by (simp_all add: j_def)
  have pk: "pow2 k = 1 / 2 ^ j" using j by (simp add: pow2_def)
  have pk1: "pow2 (k + 1) = 1 / 2 ^ (j - 1)"
  proof (cases "j = 1")
    case True
    then show ?thesis using j by (simp add: pow2_def)
  next
    case False
    then have "k + 1 < 0" using j by simp
    moreover have "nat (- (k + 1)) = j - 1" using j by simp
    ultimately show ?thesis by (simp add: pow2_def)
  qed
  have up: "1 / q \<le> 2 ^ j"
  proof -
    have "1 / 2 ^ j \<le> q" using lo pk by simp
    then have "1 \<le> q * 2 ^ j" by (simp add: field_simps)
    then show ?thesis using qpos by (simp add: field_simps)
  qed
  have low: "2 ^ (j - 1) < 1 / q"
  proof -
    have "q < 1 / 2 ^ (j - 1)" using hi pk1 by simp
    then have "q * 2 ^ (j - 1) < 1" by (simp add: field_simps)
    then show ?thesis using qpos by (simp add: field_simps)
  qed
  have c1: "\<lceil>1 / q\<rceil> \<le> (2::int) ^ j"
  proof -
    have "1 / q \<le> real_of_int (2 ^ j)" using up by simp
    then show ?thesis by (simp only: ceiling_le_iff)
  qed
  have c2: "(2::int) ^ (j - 1) < \<lceil>1 / q\<rceil>"
  proof -
    have "real_of_int (2 ^ (j - 1)) < 1 / q" using low by simp
    then show ?thesis by (simp only: less_ceiling_iff)
  qed
  have "bitlen (\<lceil>1 / q\<rceil> - 1) \<le> int j"
    using c1 by (simp add: bitlen_le_iff_power)
  moreover have "int j \<le> bitlen (\<lceil>1 / q\<rceil> - 1)"
    using c2 j by (simp add: bitlen_ge_iff_power)
  ultimately have "bitlen (\<lceil>1 / q\<rceil> - 1) = int j" by simp
  then show ?thesis using False j by (simp add: floor_log2_def)
qed

lemma round_half_even_eq:
  assumes "\<bar>x - of_int m\<bar> < 1 / 2"
  shows "round_half_even x = m"
proof -
  have f: "\<lfloor>x\<rfloor> = m \<or> \<lfloor>x\<rfloor> = m - 1"
  proof -
    have "of_int m - 1 < x" "x < of_int m + 1" using assms by linarith+
    then have "m - 1 \<le> \<lfloor>x\<rfloor>" "\<lfloor>x\<rfloor> < m + 1"
      by (simp add: le_floor_iff, subst floor_less_iff, simp)
    then show ?thesis by linarith
  qed
  show ?thesis
  proof (cases "\<lfloor>x\<rfloor> = m")
    case True
    then have "x - of_int \<lfloor>x\<rfloor> < 1 / 2" using assms by linarith
    then show ?thesis using True by (simp add: round_half_even_def Let_def)
  next
    case False
    with f have e: "\<lfloor>x\<rfloor> = m - 1" by simp
    have "of_int m - 1 / 2 < x" using assms by linarith
    then have "1 / 2 < x - of_int (m - 1)" by simp
    then have h: "1 / 2 < x - of_int \<lfloor>x\<rfloor>" by (simp only: e)
    then have "\<not> x - of_int \<lfloor>x\<rfloor> < 1 / 2" by linarith
    with h show ?thesis using e by (simp add: round_half_even_def Let_def)
  qed
qed

lemma float_of_real_normal:
  assumes lo: "pow2 k \<le> q" and hi: "q < pow2 (k + 1)"
    and k: "- 1022 \<le> k" "k \<le> 1022"
    and m: "\<bar>q / pow2 (k - 52) - of_int m\<bar> < 1 / 2"
  shows "float_of_real q = Finite (of_int m * pow2 (k - 52))"
proof -
  have qpos: "0 < q" using lo pow2_pos [of k] by linarith
  have fl: "floor_log2 q = k" using lo hi by (rule floor_log2_eq)
  have e: "max (floor_log2 q - 52) (- 1074) = k - 52" using k by (simp add: fl)
  have r: "round_half_even (q / pow2 (k - 52)) = m" using m by (rule round_half_even_eq)
  have eq53: "pow2 (k + 1) = pow2 53 * pow2 (k - 52)"
  proof -
    have "k + 1 = 53 + (k - 52)" by simp
    then have "pow2 (k + 1) = pow2 (53 + (k - 52))" by (rule arg_cong)
    then show ?thesis by (simp only: pow2_add)
  qed
  have "q / pow2 (k - 52) < pow2 53"
    using hi unfolding eq53 by (simp add: field_simps)
  then have "of_int m < pow2 53 + 1 / 2" using m by linarith
  then have "of_int m < real_of_int (2 ^ 53) + 1 / 2" by (simp add: pow2_def)
  then have "m \<le> 2 ^ 53" by linarith
  then have "real_of_int m \<le> pow2 53" by (simp add: pow2_def)
  then have "of_int m * pow2 (k - 52) \<le> pow2 53 * pow2 (k - 52)"
    by (intro mult_right_mono less_imp_le [OF pow2_pos])
  also have "\<dots> = pow2 (k + 1)" by (simp only: eq53)
  also have "\<dots> \<le> pow2 1023" using k by (intro pow2_mono) simp
  also have "\<dots> < pow2 1024" by (simp add: pow2_def)
  finally have b: "\<not> pow2 1024 \<le> of_int m * pow2 (k - 52)" by simp
  have nz: "q \<noteq> 0" using qpos by simp
  have "float_of_real q =
      (if pow2 1024 \<le> of_int (round_half_even (q / pow2 (k - 52))) * pow2 (k - 52)
       then Infinity
       else Finite (of_int (round_half_even (q / pow2 (k - 52))) * pow2 (k - 52)))"
    unfolding float_of_real_def Let_def e using nz by (simp only: if_False)
  also have "\<dots> = Finite (of_int m * pow2 (k - 52))"
    unfolding r using b by (simp only: if_False)
  finally show ?thesis .
qed

lemma float_of_real_one: "float_of_real 1 = Finite 1"
  using float_of_real_normal [of 0 1 "2 ^ 52"] by (simp add: pow2_def)

lemma float_of_real_zero: "float_of_real 0 = Finite 0"
  by (simp add: float_of_real_def)

lemma float_fifth: "float_of_real (1 / 5) = Finite (3602879701896397 / 18014398509481984)"
  using float_of_real_normal [of "- 3" "1 / 5" 7205759403792794] by (simp add: pow2_def)

lemma float_price_a:
  "float_of_real (2820379266640773 / 562949953421312)
     = Finite (2820379266640773 / 562949953421312)"
  using float_of_real_normal [of 2 "2820379266640773 / 562949953421312" 5640758533281546]
  by (simp add: pow2_def)

lemma float_price_b:
  "float_of_real (5764607523034235 / 576460752303423488)
     = Finite (5764607523034235 / 576460752303423488)"
  using float_of_real_normal [of "- 7" "5764607523034235 / 576460752303423488" 5764607523034235]
  by (simp add: pow2_def)

lemma float_product_a:
  "float_of_real (10161487211429487014127861994881 / 10141204801825835211973625643008)
     = Finite (4512606826625237 / 4503599627370496)"
  using float_of_real_normal [of 0
      "10161487211429487014127861994881 / 10141204801825835211973625643008"
      4512606826625237]
  by (simp add: pow2_def)

lemma float_product_b:
  "float_of_real (20769187434139312099389054151295 / 10384593717069655257060992658440192)
     = Finite (1152921504606847 / 576460752303423488)"
  using float_of_real_normal [of "- 9"
      "20769187434139312099389054151295 / 10384593717069655257060992658440192"
      4611686018427388]
  by (simp add: pow2_def)

lemma float_key_a:
  "float_of_real (9007199254741 / 4503599627370496) = Finite (9007199254741 / 4503599627370496)"
  using float_of_real_normal [of "- 9" "9007199254741 / 4503599627370496" 4611686018427392]
  by (simp add: pow2_def)

lemma float_key_b:
  "float_of_real (1152921504606847 / 576460752303423488)
     = Finite (1152921504606847 / 576460752303423488)"
  using float_of_real_normal [of "- 9" "1152921504606847 / 576460752303423488" 4611686018427388]
  by (simp add: pow2_def)


subsection \<open>The ranking step\<close>

lemma keys_of_total:
  "(\<And>x. x \<in> set xs \<Longrightarrow> f x = Inr (v x)) \<Longrightarrow> keys_of f xs = Inr (map (\<lambda>x. (v x, x)) xs)"
  by (induction xs) simp_all

lemma insort_graph:
  "(\<And>p. p \<in> set ps \<Longrightarrow> fst p = v (snd p)) \<Longrightarrow>
     map snd (insort_key (\<lambda>p. - fst p) (v x, x) ps) = insort_key (\<lambda>y. - v y) x (map snd ps)"
  by (induction ps) auto

lemma sorted_reverse_graph:
  "sorted_reverse (map (\<lambda>x. (v x, x)) xs) = sort_key (\<lambda>x. - v x) xs"
proof (induction xs)
  case Nil
  then show ?case by (simp add: sorted_reverse_def)
next
  case (Cons x xs)
  let ?S = "sort_key (\<lambda>p. - fst p) (map (\<lambda>x. (v x, x)) xs)"
  have g: "fst p = v (snd p)" if "p \<in> set ?S" for p
    using that by auto
  have "sorted_reverse (map (\<lambda>x. (v x, x)) (x # xs))
          = map snd (insort_key (\<lambda>p. - fst p) (v x, x) ?S)"
    by (simp add: sorted_reverse_def)
  also have "\<dots> = insort_key (\<lambda>y. - v y) x (map snd ?S)"
    using g by (rule insort_graph)
  also have "map snd ?S = sort_key (\<lambda>x. - v x) xs"
    using Cons.IH by (simp add: sorted_reverse_def)
  finally show ?case by simp
qed

lemma to_float_Inr: "to_float v = Inr y \<Longrightarrow> y = fl v"
  by (simp add: to_float_def fl_def split: pyfloat.splits)

lemma to_float_Inl: "to_float v = Inl e \<Longrightarrow> e = OverflowError"
  by (simp add: to_float_def split: pyfloat.splits)

lemma score_float:
  assumes "row_ok mood' dietary' nutrient item"
  shows "score mood' dietary' nutrient item = Inr (float_score mood' dietary' nutrient item)"
proof -
  from assms obtain v where v: "score mood' dietary' nutrient item = Inr v"
    by (auto simp: row_ok_def split: sum.splits)
  from v obtain pop where pop: "popularity_score item = Some pop"
    by (auto simp: score_def split: option.splits)
  from v pop obtain s0 where s0: "to_float pop = Inr s0"
    by (auto simp: score_def split: sum.splits)
  from v pop s0 obtain p where p: "price item = Some p"
    by (auto simp: score_def Let_def split: sum.splits option.splits)
  from v pop s0 p obtain pf where pf: "to_float p = Inr pf"
    by (auto simp: score_def Let_def split: sum.splits option.splits)
  note fs = to_float_Inr [OF s0] to_float_Inr [OF pf]
  show ?thesis
    using v
    by (auto simp: score_def float_score_def Let_def pop p s0 pf fs
          split: option.splits sum.splits if_splits dest!: to_float_Inr)
qed

lemma rank_rows_float:
  assumes "\<And>r. r \<in> set rows \<Longrightarrow> row_ok mood' dietary' nutrient r"
  shows "rank_rows mood' dietary' nutrient limit rows
           = Inr (slice_to limit (sort_key (\<lambda>r. - float_score mood' dietary' nutrient r) rows))"
proof -
  have "keys_of (score mood' dietary' nutrient) rows
          = Inr (map (\<lambda>x. (float_score mood' dietary' nutrient x, x)) rows)"
    using assms by (intro keys_of_total score_float)
  then show ?thesis
    by (simp add: rank_rows_def sorted_reverse_graph)
qed

lemma sort_desc_sorted:
  "sorted_wrt (\<lambda>a b. v b \<le> (v a :: real)) (sort_key (\<lambda>x. - v x) xs)"
proof -
  have "sorted (map (\<lambda>x. - v x) (sort_key (\<lambda>x. - v x) xs))" by (rule sorted_sort_key)
  then show ?thesis by (simp add: sorted_map)
qed

lemma slice_to_nonneg: "0 \<le> n \<Longrightarrow> slice_to n xs = take (nat n) xs"
  by (simp add: slice_to_def)


lemma row_ok_iff:
  "row_ok mood' dietary' nutrient item \<longleftrightarrow>
     (\<exists>pop p. popularity_score item = Some pop \<and> price item = Some p
        \<and> float_of_real \<bar>pop\<bar> \<noteq> Infinity \<and> float_of_real \<bar>p\<bar> \<noteq> Infinity)
     \<and> (nutrient = Some ''protein'' \<longrightarrow> calories item \<noteq> None)
     \<and> (\<forall>ds tags. dietary' = Some ds \<and> ds \<noteq> [] \<and> dietary_tags item = Some tags \<longrightarrow>
           float_of_real (real (12 * length (filter (\<lambda>d. d \<in> set tags) ds))) \<noteq> Infinity)"
proof (cases "popularity_score item")
  case None
  then show ?thesis by (simp add: row_ok_def score_def)
next
  case pop: (Some pop)
  show ?thesis
  proof (cases "float_of_real \<bar>pop\<bar>")
    case Infinity
    then show ?thesis by (simp add: row_ok_def score_def to_float_def pop)
  next
    case fpop: (Finite r0)
    show ?thesis
    proof (cases "price item")
      case None
      then show ?thesis
        by (simp add: row_ok_def score_def to_float_def pop fpop Let_def
              split: option.splits sum.splits pyfloat.splits)
    next
      case p: (Some p)
      show ?thesis
      proof (cases "float_of_real \<bar>p\<bar>")
        case Infinity
        then show ?thesis
          by (simp add: row_ok_def score_def to_float_def pop fpop p Let_def
                split: option.splits sum.splits pyfloat.splits)
      next
        case fp: (Finite r1)
        show ?thesis
        proof (cases "nutrient = Some ''protein''")
          case True
          show ?thesis
          proof (cases "calories item")
            case None
            then show ?thesis
              using True
              by (simp add: row_ok_def score_def to_float_def pop fpop p fp Let_def
                    split: option.splits sum.splits pyfloat.splits)
          next
            case (Some c)
            then show ?thesis
              using True
              by (simp add: row_ok_def score_def to_float_def pop fpop p fp Let_def
                    float_of_real_zero split: option.splits sum.splits pyfloat.splits)
          qed
        next
          case False
          then show ?thesis
            by (simp add: row_ok_def score_def to_float_def pop fpop p fp Let_def
                  float_of_real_zero split: option.splits sum.splits pyfloat.splits)
        qed
      qed
    qed
  qed
qed

lemma float_value_1: "float_of_real 85 = Finite 85"
  using float_of_real_normal [of 6 85 5981343255101440] by (simp add: pow2_def)

lemma float_value_2: "float_of_real 25 = Finite 25"
  using float_of_real_normal [of 4 25 7036874417766400] by (simp add: pow2_def)

lemma float_value_3: "float_of_real 110 = Finite 110"
  using float_of_real_normal [of 6 110 7740561859543040] by (simp add: pow2_def)

lemma float_value_4: "float_of_real 10 = Finite 10"
  using float_of_real_normal [of 3 10 5629499534213120] by (simp add: pow2_def)

lemma float_value_5: "float_of_real 120 = Finite 120"
  using float_of_real_normal [of 6 120 8444249301319680] by (simp add: pow2_def)

lemma float_value_6: "float_of_real 9 = Finite 9"
  using float_of_real_normal [of 3 9 5066549580791808] by (simp add: pow2_def)

lemma float_value_7:
  "float_of_real (32425917317067573 / 18014398509481984)
     = Finite (8106479329266893 / 4503599627370496)"
  using float_of_real_normal [of 0 "32425917317067573 / 18014398509481984" 8106479329266893]
  by (simp add: pow2_def)

lemma float_value_8:
  "float_of_real (532325475955192627 / 4503599627370496)
     = Finite (8317585561799885 / 70368744177664)"
  using float_of_real_normal [of 6 "532325475955192627 / 4503599627370496" 8317585561799885]
  by (simp add: pow2_def)

lemma float_value_9: "float_of_real 90 = Finite 90"
  using float_of_real_normal [of 6 90 6333186975989760] by (simp add: pow2_def)

lemma float_value_10: "float_of_real 12 = Finite 12"
  using float_of_real_normal [of 3 12 6755399441055744] by (simp add: pow2_def)

lemma float_value_11: "float_of_real 102 = Finite 102"
  using float_of_real_normal [of 6 102 7177611906121728] by (simp add: pow2_def)

lemma float_value_12: "float_of_real 112 = Finite 112"
  using float_of_real_normal [of 6 112 7881299347898368] by (simp add: pow2_def)

lemma float_value_13: "float_of_real 7 = Finite 7"
  using float_of_real_normal [of 2 7 7881299347898368] by (simp add: pow2_def)

lemma float_value_14:
  "float_of_real (25220157913274779 / 18014398509481984)
     = Finite (6305039478318695 / 4503599627370496)"
  using float_of_real_normal [of 0 "25220157913274779 / 18014398509481984" 6305039478318695]
  by (simp add: pow2_def)

lemma float_value_15:
  "float_of_real (498098118787176857 / 4503599627370496)
     = Finite (3891391553024819 / 35184372088832)"
  using float_of_real_normal [of 6 "498098118787176857 / 4503599627370496" 7782783106049638]
  by (simp add: pow2_def)

lemma float_value_16:
  "float_of_real (374699488997225267 / 4503599627370496)
     = Finite (5854679515581645 / 70368744177664)"
  using float_of_real_normal [of 6 "374699488997225267 / 4503599627370496" 5854679515581645]
  by (simp add: pow2_def)

lemma float_value_17:
  "float_of_real (399018926985025945 / 4503599627370496)
     = Finite (3117335367070515 / 35184372088832)"
  using float_of_real_normal [of 6 "399018926985025945 / 4503599627370496" 6234670734141030]
  by (simp add: pow2_def)

lemmas float_values = float_value_1 float_value_2 float_value_3 float_value_4 float_value_5
  float_value_6 float_value_7 float_value_8 float_value_9 float_value_10 float_value_11
  float_value_12 float_value_13 float_value_14 float_value_15 float_value_16 float_value_17

lemmas score_eval = rank_rows_def score_def to_float_def fl_def fadd_def sorted_reverse_def
  slice_to_def pow2_def float_of_real_zero float_of_real_one float_fifth


text \<open>
  Claim C6 as stated fails in three ways.

  A negative limit, which the endpoints pass on unchecked, is a slice from the end:
  \<open>rows_sorted[:-1]\<close> drops the last row only, so two candidates give one result, more
  than the limit \<open>-1\<close>.

  A candidate whose \<open>popularity_score\<close> is \<open>NULL\<close> (no clause of the query excludes it)
  makes \<open>float(None)\<close> raise \<open>TypeError\<close> in \<open>score\<close>, and the ranking step returns no
  list at all.

  The score is computed in floats and not in exact arithmetic.  For the candidates
  \<open>R004\<close> with popularity 1 and price \<open>5.01\<close> and \<open>R005\<close> with popularity 0 and price
  \<open>0.01\<close> (the prices are the floats that Python reads from these literals, written as
  fractions) the code computes the keys \<open>-0.0020000000000000018\<close> and \<open>-0.002\<close> and puts
  \<open>R005\<close> first, while the score of the specification in exact arithmetic is larger
  for \<open>R004\<close>.
\<close>

theorem C6_counterexample:
  "rank_rows None None None (- 1)
     [\<lparr>product_id = Some ''R001'', name = Some ''Chicken Fried Rice'', price = Some 9,
       spice_level = Some 3, popularity_score = Some 85, category = Some ''rice'',
       calories = Some 520, mood_tags = Some [''comfort''], dietary_tags = Some []\<rparr>,
      \<lparr>product_id = Some ''R002'', name = Some ''Veggie Bowl'', price = Some 7,
       spice_level = Some 0, popularity_score = Some 90, category = Some ''bowl'',
       calories = Some 310, mood_tags = Some [''healthy''], dietary_tags = Some [''vegan'']\<rparr>]
   = Inr [\<lparr>product_id = Some ''R002'', name = Some ''Veggie Bowl'', price = Some 7,
       spice_level = Some 0, popularity_score = Some 90, category = Some ''bowl'',
       calories = Some 310, mood_tags = Some [''healthy''], dietary_tags = Some [''vegan'']\<rparr>]
   \<and> \<not> (int (length
       [\<lparr>product_id = Some ''R002'', name = Some ''Veggie Bowl'', price = Some 7,
       spice_level = Some 0, popularity_score = Some 90, category = Some ''bowl'',
       calories = Some 310, mood_tags = Some [''healthy''], dietary_tags = Some [''vegan'']\<rparr>]) \<le> - 1)
   \<and> rank_rows None None None 5
     [\<lparr>product_id = Some ''R001'', name = Some ''Chicken Fried Rice'', price = Some 9,
       spice_level = Some 3, popularity_score = Some 85, category = Some ''rice'',
       calories = Some 520, mood_tags = Some [''comfort''], dietary_tags = Some []\<rparr>,
      \<lparr>product_id = Some ''R003'', name = Some ''Soup of the Day'', price = Some 5,
       spice_level = Some 1, popularity_score = None, category = Some ''soup'',
       calories = Some 200, mood_tags = Some [''comfort''], dietary_tags = Some []\<rparr>]
   = Inl TypeError
   \<and> rank_rows None None None 5
     [\<lparr>product_id = Some ''R004'', name = Some ''Masala Dosa'',
       price = Some (2820379266640773 / 562949953421312),
       spice_level = Some 2, popularity_score = Some 1, category = Some ''dosa'',
       calories = Some 350, mood_tags = Some [], dietary_tags = Some []\<rparr>,
      \<lparr>product_id = Some ''R005'', name = Some ''Mint Candy'',
       price = Some (5764607523034235 / 576460752303423488),
       spice_level = Some 0, popularity_score = Some 0, category = Some ''candy'',
       calories = Some 20, mood_tags = Some [], dietary_tags = Some []\<rparr>]
   = Inr [\<lparr>product_id = Some ''R005'', name = Some ''Mint Candy'',
       price = Some (5764607523034235 / 576460752303423488),
       spice_level = Some 0, popularity_score = Some 0, category = Some ''candy'',
       calories = Some 20, mood_tags = Some [], dietary_tags = Some []\<rparr>,
      \<lparr>product_id = Some ''R004'', name = Some ''Masala Dosa'',
       price = Some (2820379266640773 / 562949953421312),
       spice_level = Some 2, popularity_score = Some 1, category = Some ''dosa'',
       calories = Some 350, mood_tags = Some [], dietary_tags = Some []\<rparr>]
   \<and> spec_score None None None
      \<lparr>product_id = Some ''R005'', name = Some ''Mint Candy'',
       price = Some (5764607523034235 / 576460752303423488),
       spice_level = Some 0, popularity_score = Some 0, category = Some ''candy'',
       calories = Some 20, mood_tags = Some [], dietary_tags = Some []\<rparr>
     < spec_score None None None
      \<lparr>product_id = Some ''R004'', name = Some ''Masala Dosa'',
       price = Some (2820379266640773 / 562949953421312),
       spice_level = Some 2, popularity_score = Some 1, category = Some ''dosa'',
       calories = Some 350, mood_tags = Some [], dietary_tags = Some []\<rparr>"
proof -
  let ?r1 = "\<lparr>product_id = Some ''R001'', name = Some ''Chicken Fried Rice'', price = Some 9,
       spice_level = Some 3, popularity_score = Some 85, category = Some ''rice'',
       calories = Some 520, mood_tags = Some [''comfort''], dietary_tags = Some []\<rparr>"
  let ?r2 = "\<lparr>product_id = Some ''R002'', name = Some ''Veggie Bowl'', price = Some 7,
       spice_level = Some 0, popularity_score = Some 90, category = Some ''bowl'',
       calories = Some 310, mood_tags = Some [''healthy''], dietary_tags = Some [''vegan'']\<rparr>"
  let ?r3 = "\<lparr>product_id = Some ''R003'', name = Some ''Soup of the Day'', price = Some 5,
       spice_level = Some 1, popularity_score = None, category = Some ''soup'',
       calories = Some 200, mood_tags = Some [''comfort''], dietary_tags = Some []\<rparr>"
  let ?a = "\<lparr>product_id = Some ''R004'', name = Some ''Masala Dosa'',
       price = Some (2820379266640773 / 562949953421312),
       spice_level = Some 2, popularity_score = Some 1, category = Some ''dosa'',
       calories = Some 350, mood_tags = Some [], dietary_tags = Some []\<rparr>"
  let ?b = "\<lparr>product_id = Some ''R005'', name = Some ''Mint Candy'',
       price = Some (5764607523034235 / 576460752303423488),
       spice_level = Some 0, popularity_score = Some 0, category = Some ''candy'',
       calories = Some 20, mood_tags = Some [], dietary_tags = Some []\<rparr>"
  have s1: "score None None None ?r1 = Inr (5854679515581645 / 70368744177664)"
    by (simp add: score_eval float_values)
  have s2: "score None None None ?r2 = Inr (3117335367070515 / 35184372088832)"
    by (simp add: score_eval float_values)
  have s3: "score None None None ?r3 = Inl TypeError"
    by (simp add: score_def)
  have sa: "score None None None ?a = Inr (- (9007199254741 / 4503599627370496))"
    by (simp add: score_eval float_price_a float_product_a float_key_a)
  have sb: "score None None None ?b = Inr (- (1152921504606847 / 576460752303423488))"
    by (simp add: score_eval float_price_b float_product_b float_key_b)
  have c1: "rank_rows None None None (- 1) [?r1, ?r2] = Inr [?r2]"
    by (simp add: rank_rows_def s1 s2 sorted_reverse_def slice_to_def)
  have c2: "\<not> (int (length [?r2]) \<le> - 1)" by simp
  have c3: "rank_rows None None None 5 [?r1, ?r3] = Inl TypeError"
    by (simp add: rank_rows_def s1 s3)
  have c4: "rank_rows None None None 5 [?a, ?b] = Inr [?b, ?a]"
    by (simp add: rank_rows_def sa sb sorted_reverse_def slice_to_def)
  have c5: "spec_score None None None ?b < spec_score None None None ?a"
    by (simp add: spec_score_def)
  show ?thesis
    by (intro conjI c1 c2 c3 c4 c5)
qed


text \<open>
  Claim C6, as amended.  For rows on which \<open>score\<close> raises nothing (by \<open>row_ok_iff\<close>: a
  popularity score and a price, both within the range of the floats, and calories when
  the nutrient is protein) and a limit that is not negative, the ranking step returns
  the first \<open>limit\<close> rows of the candidates sorted in descending order of \<open>float_score\<close>,
  the score of the specification evaluated in binary64 floats, every operation rounded,
  in the order of the source: popularity, plus 25 for a requested mood among the mood
  tags, plus 12 times the number of requested dietary tags among the dietary tags, plus
  10 for protein with at least 300 calories, minus the price times the float \<open>0.2\<close>.
  The sorted list is a permutation of the candidates that keeps rows of equal float
  score in their order, \<open>score\<close> returns \<open>float_score\<close> on every candidate, and
  \<open>recommend_by_preferences\<close> is this step on the rows that \<open>fetch_products\<close> returns.
\<close>

theorem C6_ranking_sorted_truncated:
  assumes "\<forall>r \<in> set rows. row_ok mood' dietary' nutrient r" and "0 \<le> limit"
  shows "\<exists>full. rank_rows mood' dietary' nutrient limit rows = Inr (take (nat limit) full)
           \<and> length (take (nat limit) full) \<le> nat limit
           \<and> mset full = mset rows
           \<and> sorted_wrt (\<lambda>a b. float_score mood' dietary' nutrient b
                                  \<le> float_score mood' dietary' nutrient a) full
           \<and> (\<forall>k. filter (\<lambda>r. float_score mood' dietary' nutrient r = k) full
                  = filter (\<lambda>r. float_score mood' dietary' nutrient r = k) rows)
           \<and> (\<forall>r \<in> set rows. score mood' dietary' nutrient r
                  = Inr (float_score mood' dietary' nutrient r))
           \<and> (fetch_products (fst (build_query mood' budget' dietary' nutrient))
                 (snd (build_query mood' budget' dietary' nutrient)) 200 = Inr rows
               \<longrightarrow> recommend_by_preferences fetch_products mood' budget' dietary' nutrient limit
                     = Inr (take (nat limit) full))"
proof -
  let ?v = "float_score mood' dietary' nutrient"
  let ?full = "sort_key (\<lambda>r. - ?v r) rows"
  have r: "rank_rows mood' dietary' nutrient limit rows = Inr (take (nat limit) ?full)"
    using assms by (simp add: rank_rows_float slice_to_nonneg)
  have st: "filter (\<lambda>r. ?v r = k) ?full = filter (\<lambda>r. ?v r = k) rows" for k
    using sort_key_stable [of "\<lambda>r. - ?v r" "- k" rows] by simp
  have sc: "\<forall>r \<in> set rows. score mood' dietary' nutrient r = Inr (?v r)"
    using assms(1) by (simp add: score_float)
  have rec: "recommend_by_preferences fetch_products mood' budget' dietary' nutrient limit
                     = Inr (take (nat limit) ?full)"
    if "fetch_products (fst (build_query mood' budget' dietary' nutrient))
                 (snd (build_query mood' budget' dietary' nutrient)) 200 = Inr rows"
    using that r by (simp add: recommend_by_preferences_def case_prod_beta)
  show ?thesis
    using r st sc rec sort_desc_sorted [of ?v rows]
    by (intro exI [of _ ?full]) simp
qed

theorem C6_witness:
  "list_all (row_ok (Some ''comfort'') (Some [''vegan'']) (Some ''protein''))
     [\<lparr>product_id = Some ''R001'', name = Some ''Chicken Fried Rice'', price = Some 9,
       spice_level = Some 3, popularity_score = Some 85, category = Some ''rice'',
       calories = Some 520, mood_tags = Some [''comfort''], dietary_tags = Some []\<rparr>,
      \<lparr>product_id = Some ''R002'', name = Some ''Veggie Bowl'', price = Some 7,
       spice_level = Some 0, popularity_score = Some 90, category = Some ''bowl'',
       calories = Some 310, mood_tags = Some [''healthy''], dietary_tags = Some [''vegan'']\<rparr>]
   \<and> (0 :: int) \<le> 1
   \<and> rank_rows (Some ''comfort'') (Some [''vegan'']) (Some ''protein'') 1
     [\<lparr>product_id = Some ''R001'', name = Some ''Chicken Fried Rice'', price = Some 9,
       spice_level = Some 3, popularity_score = Some 85, category = Some ''rice'',
       calories = Some 520, mood_tags = Some [''comfort''], dietary_tags = Some []\<rparr>,
      \<lparr>product_id = Some ''R002'', name = Some ''Veggie Bowl'', price = Some 7,
       spice_level = Some 0, popularity_score = Some 90, category = Some ''bowl'',
       calories = Some 310, mood_tags = Some [''healthy''], dietary_tags = Some [''vegan'']\<rparr>]
     = Inr [\<lparr>product_id = Some ''R001'', name = Some ''Chicken Fried Rice'', price = Some 9,
       spice_level = Some 3, popularity_score = Some 85, category = Some ''rice'',
       calories = Some 520, mood_tags = Some [''comfort''], dietary_tags = Some []\<rparr>]
   \<and> float_score (Some ''comfort'') (Some [''vegan'']) (Some ''protein'')
       \<lparr>product_id = Some ''R001'', name = Some ''Chicken Fried Rice'', price = Some 9,
       spice_level = Some 3, popularity_score = Some 85, category = Some ''rice'',
       calories = Some 520, mood_tags = Some [''comfort''], dietary_tags = Some []\<rparr>
       = 8317585561799885 / 70368744177664
   \<and> float_score (Some ''comfort'') (Some [''vegan'']) (Some ''protein'')
       \<lparr>product_id = Some ''R002'', name = Some ''Veggie Bowl'', price = Some 7,
       spice_level = Some 0, popularity_score = Some 90, category = Some ''bowl'',
       calories = Some 310, mood_tags = Some [''healthy''], dietary_tags = Some [''vegan'']\<rparr>
       = 3891391553024819 / 35184372088832
   \<and> (\<exists>full. rank_rows (Some ''comfort'') (Some [''vegan'']) (Some ''protein'') 1
     [\<lparr>product_id = Some ''R001'', name = Some ''Chicken Fried Rice'', price = Some 9,
       spice_level = Some 3, popularity_score = Some 85, category = Some ''rice'',
       calories = Some 520, mood_tags = Some [''comfort''], dietary_tags = Some []\<rparr>,
      \<lparr>product_id = Some ''R002'', name = Some ''Veggie Bowl'', price = Some 7,
       spice_level = Some 0, popularity_score = Some 90, category = Some ''bowl'',
       calories = Some 310, mood_tags = Some [''healthy''], dietary_tags = Some [''vegan'']\<rparr>]
       = Inr (take (nat 1) full)
     \<and> mset full = mset
     [\<lparr>product_id = Some ''R001'', name = Some ''Chicken Fried Rice'', price = Some 9,
       spice_level = Some 3, popularity_score = Some 85, category = Some ''rice'',
       calories = Some 520, mood_tags = Some [''comfort''], dietary_tags = Some []\<rparr>,
      \<lparr>product_id = Some ''R002'', name = Some ''Veggie Bowl'', price = Some 7,
       spice_level = Some 0, popularity_score = Some 90, category = Some ''bowl'',
       calories = Some 310, mood_tags = Some [''healthy''], dietary_tags = Some [''vegan'']\<rparr>])"
proof -
  let ?a = "\<lparr>product_id = Some ''R001'', name = Some ''Chicken Fried Rice'', price = Some 9,
       spice_level = Some 3, popularity_score = Some 85, category = Some ''rice'',
       calories = Some 520, mood_tags = Some [''comfort''], dietary_tags = Some []\<rparr>"
  let ?b = "\<lparr>product_id = Some ''R002'', name = Some ''Veggie Bowl'', price = Some 7,
       spice_level = Some 0, popularity_score = Some 90, category = Some ''bowl'',
       calories = Some 310, mood_tags = Some [''healthy''], dietary_tags = Some [''vegan'']\<rparr>"
  let ?v = "float_score (Some ''comfort'') (Some [''vegan'']) (Some ''protein'')"
  have sa: "score (Some ''comfort'') (Some [''vegan'']) (Some ''protein'') ?a = Inr (8317585561799885 / 70368744177664)"
    by (simp add: score_eval float_values)
  have sb: "score (Some ''comfort'') (Some [''vegan'']) (Some ''protein'') ?b = Inr (3891391553024819 / 35184372088832)"
    by (simp add: score_eval float_values)
  have ok: "list_all (row_ok (Some ''comfort'') (Some [''vegan'']) (Some ''protein'')) [?a, ?b]"
    by (simp add: row_ok_def sa sb)
  then have h: "\<forall>r \<in> set [?a, ?b]. row_ok (Some ''comfort'') (Some [''vegan'']) (Some ''protein'') r"
    by (simp only: list_all_iff)
  have l: "(0 :: int) \<le> 1" by simp
  from C6_ranking_sorted_truncated [OF h l]
  obtain full where r: "rank_rows (Some ''comfort'') (Some [''vegan'']) (Some ''protein'') 1 [?a, ?b] = Inr (take (nat 1) full)"
    and m: "mset full = mset [?a, ?b]"
    and sc: "\<forall>r \<in> set [?a, ?b]. score (Some ''comfort'') (Some [''vegan'']) (Some ''protein'') r = Inr (?v r)"
    by blast
  from sc have "score (Some ''comfort'') (Some [''vegan'']) (Some ''protein'') ?a = Inr (?v ?a)" and "score (Some ''comfort'') (Some [''vegan'']) (Some ''protein'') ?b = Inr (?v ?b)"
    by simp_all
  with sa sb have va: "?v ?a = 8317585561799885 / 70368744177664"
    and vb: "?v ?b = 3891391553024819 / 35184372088832"
    by simp_all
  from r m
  have e: "\<exists>full. rank_rows (Some ''comfort'') (Some [''vegan'']) (Some ''protein'') 1 [?a, ?b] = Inr (take (nat 1) full)
      \<and> mset full = mset [?a, ?b]"
    by blast
  have c: "rank_rows (Some ''comfort'') (Some [''vegan'']) (Some ''protein'') 1 [?a, ?b] = Inr [?a]"
    by (simp add: rank_rows_def sa sb sorted_reverse_def slice_to_def)
  show ?thesis
    by (intro conjI ok l c va vb e)
qed

subsection \<open>The collaborative variant\<close>

lemma order_by_popularity_sorted: "sorted_wrt popularity_ge (order_by_popularity_desc rows)"
proof -
  let ?f = "\<lambda>r. - (case popularity_score r of None \<Rightarrow> 0 | Some v \<Rightarrow> v)"
  let ?some = "filter (\<lambda>r. popularity_score r \<noteq> None) rows"
  let ?none = "filter (\<lambda>r. popularity_score r = None) rows"
  have "sorted (map ?f (sort_key ?f ?some))" by (rule sorted_sort_key)
  then have s: "sorted_wrt (\<lambda>a b. ?f a \<le> ?f b) (sort_key ?f ?some)"
    by (simp add: sorted_map)
  have a: "sorted_wrt popularity_ge (sort_key ?f ?some)"
  proof (rule sorted_wrt_mono_rel [OF _ s])
    fix a b assume "a \<in> set (sort_key ?f ?some)" "b \<in> set (sort_key ?f ?some)" "?f a \<le> ?f b"
    then show "popularity_ge a b"
      by (auto simp: popularity_ge_def)
  qed
  have b: "sorted_wrt popularity_ge ?none"
    by (rule sorted_wrt_mono_rel [of _ "\<lambda>a b. True"]) (auto simp: popularity_ge_def)
  have c: "popularity_ge x y" if "y \<in> set ?none" for x y
    using that by (simp add: popularity_ge_def)
  show ?thesis
    unfolding order_by_popularity_desc_def sorted_wrt_append using a b c by blast
qed

lemma order_by_popularity_set [simp]: "set (order_by_popularity_desc rows) = set rows"
  by (auto simp: order_by_popularity_desc_def)

lemma order_by_popularity_length [simp]:
  "length (order_by_popularity_desc rows) = length rows"
proof -
  have "length (order_by_popularity_desc rows)
      = length (filter (\<lambda>r. popularity_score r \<noteq> None) rows)
        + length (filter (\<lambda>r. \<not> popularity_score r \<noteq> None) rows)"
    by (simp add: order_by_popularity_desc_def)
  then show ?thesis by (simp only: sum_length_filter_compl)
qed


text \<open>
  Claim C8 as stated fails for a limit below 0, which \<open>/collab\<close> passes on unchecked: for
  SQLite a negative \<open>LIMIT\<close> is no limit, so the limit \<open>-1\<close> returns both products of the
  category.  A limit of \<open>2 ^ 63\<close> makes the second statement raise for a known product.
\<close>

theorem C8_counterexample:
  "collaborative_recommend
     [\<lparr>product_id = Some ''R001'', name = Some ''Chicken Fried Rice'', price = Some 9,
       spice_level = Some 3, popularity_score = Some 85, category = Some ''rice'',
       calories = Some 520, mood_tags = Some [''comfort''], dietary_tags = Some []\<rparr>,
      \<lparr>product_id = Some ''R003'', name = Some ''Egg Fried Rice'', price = Some 8,
       spice_level = Some 1, popularity_score = Some 70, category = Some ''rice'',
       calories = Some 480, mood_tags = Some [''comfort''], dietary_tags = Some []\<rparr>,
      \<lparr>product_id = Some ''R004'', name = Some ''Veg Biryani'', price = Some 10,
       spice_level = Some 4, popularity_score = Some 90, category = Some ''rice'',
       calories = Some 450, mood_tags = Some [''party''], dietary_tags = Some [''vegetarian'']\<rparr>]
     ''R001'' (- 1)
   = Inr
     [\<lparr>product_id = Some ''R004'', name = Some ''Veg Biryani'', price = Some 10,
       spice_level = Some 4, popularity_score = Some 90, category = Some ''rice'',
       calories = Some 450, mood_tags = Some [''party''], dietary_tags = Some [''vegetarian'']\<rparr>,
      \<lparr>product_id = Some ''R003'', name = Some ''Egg Fried Rice'', price = Some 8,
       spice_level = Some 1, popularity_score = Some 70, category = Some ''rice'',
       calories = Some 480, mood_tags = Some [''comfort''], dietary_tags = Some []\<rparr>]
   \<and> \<not> ((2 :: int) \<le> - 1)
   \<and> collaborative_recommend
     [\<lparr>product_id = Some ''R001'', name = Some ''Chicken Fried Rice'', price = Some 9,
       spice_level = Some 3, popularity_score = Some 85, category = Some ''rice'',
       calories = Some 520, mood_tags = Some [''comfort''], dietary_tags = Some []\<rparr>]
     ''R001'' (2 ^ 63) = Inl OverflowError"
  by (simp add: collaborative_recommend_def sql_limit_def order_by_popularity_desc_def)


text \<open>
  Claim C8, as amended.  For a product id that no row of the catalog has,
  \<open>collaborative_recommend\<close> returns the empty list and raises nothing, whatever the limit.
  For a known product id and a limit from 0 to below \<open>2 ^ 63\<close> it returns rows of the
  catalog that have the category of the seed product and another product id, in
  descending order of popularity (rows without a score last), as many as there are but
  at most \<open>limit\<close>.
\<close>

theorem C8_collaborative_recommend:
  "((\<forall>r \<in> set table. product_id r \<noteq> Some pid) \<longrightarrow>
       collaborative_recommend table pid limit = Inr [])
   \<and> (find (\<lambda>r. product_id r = Some pid) table = Some seed \<and> 0 \<le> limit \<and> limit < 2 ^ 63 \<longrightarrow>
       (\<exists>out. collaborative_recommend table pid limit = Inr out
          \<and> length out \<le> nat limit
          \<and> length out = min (nat limit) (length (filter
               (\<lambda>x. category seed \<noteq> None \<and> category x = category seed
                    \<and> product_id x \<noteq> None \<and> product_id x \<noteq> Some pid) table))
          \<and> (\<forall>x \<in> set out. x \<in> set table \<and> category x = category seed
                \<and> category x \<noteq> None \<and> product_id x \<noteq> Some pid)
          \<and> sorted_wrt popularity_ge out))"
proof (intro conjI impI)
  assume "\<forall>r \<in> set table. product_id r \<noteq> Some pid"
  then have "find (\<lambda>r. product_id r = Some pid) table = None"
    by (simp add: find_None_iff)
  then show "collaborative_recommend table pid limit = Inr []"
    by (simp add: collaborative_recommend_def)
next
  assume h: "find (\<lambda>r. product_id r = Some pid) table = Some seed \<and> 0 \<le> limit \<and> limit < 2 ^ 63"
  let ?P = "\<lambda>x. category seed \<noteq> None \<and> category x = category seed
                \<and> product_id x \<noteq> None \<and> product_id x \<noteq> Some pid"
  let ?out = "take (nat limit) (order_by_popularity_desc (filter ?P table))"
  have r: "collaborative_recommend table pid limit = Inr ?out"
    using h by (simp add: collaborative_recommend_def sql_limit_def)
  have s: "sorted_wrt popularity_ge ?out"
    by (intro sorted_wrt_take order_by_popularity_sorted)
  have m: "\<forall>x \<in> set ?out. x \<in> set table \<and> category x = category seed
                \<and> category x \<noteq> None \<and> product_id x \<noteq> Some pid"
  proof
    fix x assume "x \<in> set ?out"
    then have "x \<in> set (order_by_popularity_desc (filter ?P table))" by (rule in_set_takeD)
    then show "x \<in> set table \<and> category x = category seed
                \<and> category x \<noteq> None \<and> product_id x \<noteq> Some pid"
      by auto
  qed
  show "\<exists>out. collaborative_recommend table pid limit = Inr out
          \<and> length out \<le> nat limit
          \<and> length out = min (nat limit) (length (filter ?P table))
          \<and> (\<forall>x \<in> set out. x \<in> set table \<and> category x = category seed
                \<and> category x \<noteq> None \<and> product_id x \<noteq> Some pid)
          \<and> sorted_wrt popularity_ge out"
  proof (intro exI [of _ ?out] conjI)
    show "collaborative_recommend table pid limit = Inr ?out" by (rule r)
    show "length ?out \<le> nat limit" by simp
    show "length ?out = min (nat limit) (length (filter ?P table))"
      by (simp add: min_def)
    show "\<forall>x \<in> set ?out. x \<in> set table \<and> category x = category seed
                \<and> category x \<noteq> None \<and> product_id x \<noteq> Some pid" by (rule m)
    show "sorted_wrt popularity_ge ?out" by (rule s)
  qed
qed


theorem C8_witness:
  "list_all (\<lambda>r. product_id r \<noteq> Some ''X999'')
     [\<lparr>product_id = Some ''R001'', name = Some ''Chicken Fried Rice'', price = Some 9,
       spice_level = Some 3, popularity_score = Some 85, category = Some ''rice'',
       calories = Some 520, mood_tags = Some [''comfort''], dietary_tags = Some []\<rparr>,
      \<lparr>product_id = Some ''R003'', name = Some ''Egg Fried Rice'', price = Some 8,
       spice_level = Some 1, popularity_score = Some 70, category = Some ''rice'',
       calories = Some 480, mood_tags = Some [''comfort''], dietary_tags = Some []\<rparr>,
      \<lparr>product_id = Some ''R004'', name = Some ''Veg Biryani'', price = Some 10,
       spice_level = Some 4, popularity_score = Some 90, category = Some ''rice'',
       calories = Some 450, mood_tags = Some [''party''], dietary_tags = Some [''vegetarian'']\<rparr>]
   \<and> collaborative_recommend
     [\<lparr>product_id = Some ''R001'', name = Some ''Chicken Fried Rice'', price = Some 9,
       spice_level = Some 3, popularity_score = Some 85, category = Some ''rice'',
       calories = Some 520, mood_tags = Some [''comfort''], dietary_tags = Some []\<rparr>,
      \<lparr>product_id = Some ''R003'', name = Some ''Egg Fried Rice'', price = Some 8,
       spice_level = Some 1, popularity_score = Some 70, category = Some ''rice'',
       calories = Some 480, mood_tags = Some [''comfort''], dietary_tags = Some []\<rparr>,
      \<lparr>product_id = Some ''R004'', name = Some ''Veg Biryani'', price = Some 10,
       spice_level = Some 4, popularity_score = Some 90, category = Some ''rice'',
       calories = Some 450, mood_tags = Some [''party''], dietary_tags = Some [''vegetarian'']\<rparr>]
     ''X999'' 5 = Inr []
   \<and> find (\<lambda>r. product_id r = Some ''R001'')
     [\<lparr>product_id = Some ''R001'', name = Some ''Chicken Fried Rice'', price = Some 9,
       spice_level = Some 3, popularity_score = Some 85, category = Some ''rice'',
       calories = Some 520, mood_tags = Some [''comfort''], dietary_tags = Some []\<rparr>,
      \<lparr>product_id = Some ''R003'', name = Some ''Egg Fried Rice'', price = Some 8,
       spice_level = Some 1, popularity_score = Some 70, category = Some ''rice'',
       calories = Some 480, mood_tags = Some [''comfort''], dietary_tags = Some []\<rparr>,
      \<lparr>product_id = Some ''R004'', name = Some ''Veg Biryani'', price = Some 10,
       spice_level = Some 4, popularity_score = Some 90, category = Some ''rice'',
       calories = Some 450, mood_tags = Some [''party''], dietary_tags = Some [''vegetarian'']\<rparr>]
     = Some \<lparr>product_id = Some ''R001'', name = Some ''Chicken Fried Rice'', price = Some 9,
       spice_level = Some 3, popularity_score = Some 85, category = Some ''rice'',
       calories = Some 520, mood_tags = Some [''comfort''], dietary_tags = Some []\<rparr>
   \<and> (0 :: int) \<le> 1 \<and> (1 :: int) < 2 ^ 63
   \<and> (\<exists>out. collaborative_recommend
     [\<lparr>product_id = Some ''R001'', name = Some ''Chicken Fried Rice'', price = Some 9,
       spice_level = Some 3, popularity_score = Some 85, category = Some ''rice'',
       calories = Some 520, mood_tags = Some [''comfort''], dietary_tags = Some []\<rparr>,
      \<lparr>product_id = Some ''R003'', name = Some ''Egg Fried Rice'', price = Some 8,
       spice_level = Some 1, popularity_score = Some 70, category = Some ''rice'',
       calories = Some 480, mood_tags = Some [''comfort''], dietary_tags = Some []\<rparr>,
      \<lparr>product_id = Some ''R004'', name = Some ''Veg Biryani'', price = Some 10,
       spice_level = Some 4, popularity_score = Some 90, category = Some ''rice'',
       calories = Some 450, mood_tags = Some [''party''], dietary_tags = Some [''vegetarian'']\<rparr>]
     ''R001'' 1 = Inr out \<and> length out \<le> nat 1 \<and> sorted_wrt popularity_ge out)
   \<and> collaborative_recommend
     [\<lparr>product_id = Some ''R001'', name = Some ''Chicken Fried Rice'', price = Some 9,
       spice_level = Some 3, popularity_score = Some 85, category = Some ''rice'',
       calories = Some 520, mood_tags = Some [''comfort''], dietary_tags = Some []\<rparr>,
      \<lparr>product_id = Some ''R003'', name = Some ''Egg Fried Rice'', price = Some 8,
       spice_level = Some 1, popularity_score = Some 70, category = Some ''rice'',
       calories = Some 480, mood_tags = Some [''comfort''], dietary_tags = Some []\<rparr>,
      \<lparr>product_id = Some ''R004'', name = Some ''Veg Biryani'', price = Some 10,
       spice_level = Some 4, popularity_score = Some 90, category = Some ''rice'',
       calories = Some 450, mood_tags = Some [''party''], dietary_tags = Some [''vegetarian'']\<rparr>]
     ''R001'' 1
     = Inr [\<lparr>product_id = Some ''R004'', name = Some ''Veg Biryani'', price = Some 10,
       spice_level = Some 4, popularity_score = Some 90, category = Some ''rice'',
       calories = Some 450, mood_tags = Some [''party''], dietary_tags = Some [''vegetarian'']\<rparr>]"
proof -
  let ?a = "\<lparr>product_id = Some ''R001'', name = Some ''Chicken Fried Rice'', price = Some 9,
       spice_level = Some 3, popularity_score = Some 85, category = Some ''rice'',
       calories = Some 520, mood_tags = Some [''comfort''], dietary_tags = Some []\<rparr>"
  let ?b = "\<lparr>product_id = Some ''R003'', name = Some ''Egg Fried Rice'', price = Some 8,
       spice_level = Some 1, popularity_score = Some 70, category = Some ''rice'',
       calories = Some 480, mood_tags = Some [''comfort''], dietary_tags = Some []\<rparr>"
  let ?c = "\<lparr>product_id = Some ''R004'', name = Some ''Veg Biryani'', price = Some 10,
       spice_level = Some 4, popularity_score = Some 90, category = Some ''rice'',
       calories = Some 450, mood_tags = Some [''party''], dietary_tags = Some [''vegetarian'']\<rparr>"
  have u': "list_all (\<lambda>r. product_id r \<noteq> Some ''X999'') [?a, ?b, ?c]" by simp
  then have u: "\<forall>r \<in> set [?a, ?b, ?c]. product_id r \<noteq> Some ''X999''"
    by (simp only: list_all_iff)
  have f: "find (\<lambda>r. product_id r = Some ''R001'') [?a, ?b, ?c] = Some ?a" by simp
  have l: "(0 :: int) \<le> 1" "(1 :: int) < 2 ^ 63" by simp_all
  note inst1 = C8_collaborative_recommend [where table = "[?a, ?b, ?c]" and pid = "''X999''"
      and limit = 5]
  note inst2 = C8_collaborative_recommend [where table = "[?a, ?b, ?c]" and pid = "''R001''"
      and limit = 1 and seed = ?a]
  from inst1 u have e: "collaborative_recommend [?a, ?b, ?c] ''X999'' 5 = Inr []"
    by blast
  from inst2 f l have k: "\<exists>out. collaborative_recommend [?a, ?b, ?c] ''R001'' 1 = Inr out
      \<and> length out \<le> nat 1 \<and> sorted_wrt popularity_ge out"
    by blast
  have v: "collaborative_recommend [?a, ?b, ?c] ''R001'' 1 = Inr [?c]"
    by (simp add: collaborative_recommend_def sql_limit_def order_by_popularity_desc_def)
  show ?thesis
    by (intro conjI u' e f l k v)
qed


end
